theory Spec2Isabelle
  imports Main "HOL-Library.Word" "HOL-Library.Char_ord" "HOL-Library.List_Lexorder"
    "HOL-Library.Multiset"
begin

unbundle bit_operations_syntax

section \<open>JavaScript values and strings\<close>

text \<open>
  The image cache manager and its path utilities are JavaScript. Strings are modelled as
  \<^typ>\<open>string\<close>; the model is meant for ASCII text (URLs), where a character, a UTF-16
  code unit and a UTF-8 byte coincide. Numbers are modelled as \<^typ>\<open>int\<close> (the code only
  meets integers: hash codes, ports, a time to live).
\<close>

datatype jsval =
    JUndefined
  | JNull
  | JBool bool
  | JNum int
  | JStr string
  | JArr "jsval list"
  | JObj "(string \<times> jsval) list"

text \<open>JavaScript truthiness, as used by \<open>if (x)\<close> and \<open>!x\<close>.\<close>

fun truthy :: "jsval \<Rightarrow> bool" where
  "truthy JUndefined = False"
| "truthy JNull = False"
| "truthy (JBool b) = b"
| "truthy (JNum n) = (n \<noteq> 0)"
| "truthy (JStr s) = (s \<noteq> [])"
| "truthy (JArr xs) = True"
| "truthy (JObj kvs) = True"

definition digit_char :: "nat \<Rightarrow> char" where
  "digit_char n = char_of (48 + n)"

function show_nat :: "int \<Rightarrow> string" where
  "show_nat n =
     (if n < 10 then [digit_char (nat n)] else show_nat (n div 10) @ [digit_char (nat (n mod 10))])"
  by pat_completeness auto

termination
  by (relation "measure nat") auto

declare show_nat.simps [simp del]

text \<open>Number to string, for integers: decimal digits, with a leading minus sign.\<close>

definition show_int :: "int \<Rightarrow> string" where
  "show_int i = (if i < 0 then CHR ''-'' # show_nat (- i) else show_nat i)"

text \<open>\<open>Array.prototype.join\<close> on strings.\<close>

fun js_join :: "string \<Rightarrow> string list \<Rightarrow> string" where
  "js_join sep [] = []"
| "js_join sep [x] = x"
| "js_join sep (x # y # ys) = x @ sep @ js_join sep (y # ys)"

text \<open>
  \<open>String(v)\<close>, the conversion that string concatenation and template literals apply.
  An array is its elements joined by commas, \<open>null\<close> and \<open>undefined\<close> elements
  giving the empty string.
\<close>

fun js_toString :: "jsval \<Rightarrow> string" where
  "js_toString JUndefined = ''undefined''"
| "js_toString JNull = ''null''"
| "js_toString (JBool b) = (if b then ''true'' else ''false'')"
| "js_toString (JNum n) = show_int n"
| "js_toString (JStr s) = s"
| "js_toString (JArr xs) =
     js_join '','' (map (\<lambda>x. if x = JUndefined \<or> x = JNull then [] else js_toString x) xs)"
| "js_toString (JObj kvs) = ''[object Object]''"

definition lower_char :: "char \<Rightarrow> char" where
  "lower_char c =
     (let n = (of_char c :: nat) in if 65 \<le> n \<and> n \<le> 90 then char_of (n + 32) else c)"

definition toLowerCase :: "string \<Rightarrow> string" where
  "toLowerCase s = map lower_char s"

text \<open>\<open>_.startsWith(s, target)\<close>: the first \<open>target.length\<close> characters are the target.\<close>

definition startsWith :: "string \<Rightarrow> string \<Rightarrow> bool" where
  "startsWith s target = (take (length target) s = target)"

text \<open>\<open>s.indexOf(t)\<close>: the first position where \<open>t\<close> occurs, \<open>None\<close> for \<open>-1\<close>.\<close>

fun indexOf :: "string \<Rightarrow> string \<Rightarrow> nat option" where
  "indexOf [] t = (if t = [] then Some 0 else None)"
| "indexOf (c # s) t =
     (if startsWith (c # s) t then Some 0
      else (case indexOf s t of None \<Rightarrow> None | Some i \<Rightarrow> Some (Suc i)))"

definition js_includes :: "string \<Rightarrow> string \<Rightarrow> bool" where
  "js_includes s t = (indexOf s t \<noteq> None)"

text \<open>\<open>s.split(c)\<close> for a one-character separator: never the empty list.\<close>

fun js_split :: "char \<Rightarrow> string \<Rightarrow> string list" where
  "js_split c [] = [[]]"
| "js_split c (x # xs) =
     (if x = c then [] # js_split c xs
      else (case js_split c xs of [] \<Rightarrow> [[x]] | p # ps \<Rightarrow> (x # p) # ps))"

section \<open>SHA-1 (crypto-js)\<close>

text \<open>
  Modelled from the spec: \<open>SHA1\<close> is the function of the crypto-js package, a dependency
  that is not part of the repository's sources. The spec calls its result the hex SHA-1 of
  the string; the model is SHA-1 as standardised (FIPS 180), on the bytes of the string,
  printed as 40 lower-case hex digits, which is what \<open>SHA1(s) + '.'\<close> yields. 32-bit
  words are integers with the reduction modulo \<open>2^32\<close> written out.
\<close>

definition rotl :: "nat \<Rightarrow> int \<Rightarrow> int" where
  "rotl n x = ((x * 2 ^ n) mod 4294967296) OR (x div 2 ^ (32 - n))"

definition sha1_f :: "nat \<Rightarrow> int \<Rightarrow> int \<Rightarrow> int \<Rightarrow> int" where
  "sha1_f t b c d =
     (if t < 20 then (b AND c) OR ((4294967295 - b) AND d)
      else if t < 40 then b XOR c XOR d
      else if t < 60 then (b AND c) OR (b AND d) OR (c AND d)
      else b XOR c XOR d)"

definition sha1_k :: "nat \<Rightarrow> int" where
  "sha1_k t =
     (if t < 20 then 0x5A827999
      else if t < 40 then 0x6ED9EBA1
      else if t < 60 then 0x8F1BBCDC
      else 0xCA62C1D6)"

text \<open>
  One round. The message schedule is kept as a window of the last sixteen words: its head
  is the word of this round, and the word sixteen rounds ahead is appended.
\<close>

fun sha1_round ::
  "int list \<times> int \<times> int \<times> int \<times> int \<times> int \<Rightarrow> nat \<Rightarrow> int list \<times> int \<times> int \<times> int \<times> int \<times> int"
where
  "sha1_round (w, a, b, c, d, e) t =
     (let wt = hd w;
          nw = rotl 1 (w ! 13 XOR w ! 8 XOR w ! 2 XOR w ! 0);
          tmp = (rotl 5 a + sha1_f t b c d + e + sha1_k t + wt) mod 4294967296
      in (tl w @ [nw], tmp, a, rotl 30 b, c, d))"

definition sha1_block :: "int list \<Rightarrow> int list \<Rightarrow> int list" where
  "sha1_block h w =
     (case foldl sha1_round (w, h ! 0, h ! 1, h ! 2, h ! 3, h ! 4) [0..<80] of
        (w', a, b, c, d, e) \<Rightarrow>
          [(h ! 0 + a) mod 4294967296, (h ! 1 + b) mod 4294967296, (h ! 2 + c) mod 4294967296,
           (h ! 3 + d) mod 4294967296, (h ! 4 + e) mod 4294967296])"

text \<open>Big-endian 32-bit words of a byte list.\<close>

fun be32 :: "int list \<Rightarrow> int list" where
  "be32 (a # b # c # d # r) = (a * 16777216 + b * 65536 + c * 256 + d) # be32 r"
| "be32 r = []"

text \<open>
  Padding: the byte \<open>0x80\<close>, zero bytes up to 56 modulo 64, and the length in bits as
  eight big-endian bytes.
\<close>

definition sha1_pad :: "int list \<Rightarrow> int list" where
  "sha1_pad m =
     (let l = length m;
          z = (119 - l mod 64) mod 64;
          bits = int (8 * l)
      in m @ [128] @ replicate z 0 @
         map (\<lambda>i. (bits div 256 ^ (7 - i)) mod 256) [0..<8])"

fun sha1_blocks :: "int list \<Rightarrow> int list \<Rightarrow> int list" where
  "sha1_blocks h ws =
     (if length ws < 16 then h else sha1_blocks (sha1_block h (take 16 ws)) (drop 16 ws))"

declare sha1_blocks.simps [simp del]

definition hexdigit :: "nat \<Rightarrow> char" where
  "hexdigit n = ''0123456789abcdef'' ! n"

definition hex32 :: "int \<Rightarrow> string" where
  "hex32 w = map (\<lambda>i. hexdigit (nat ((w div 16 ^ (7 - i)) mod 16))) [0..<8]"

definition SHA1 :: "string \<Rightarrow> string" where
  "SHA1 s =
     concat (map hex32
       (sha1_blocks [0x67452301, 0xEFCDAB89, 0x98BADCFE, 0x10325476, 0xC3D2E1F0]
          (be32 (sha1_pad (map (\<lambda>c. int (of_char c)) s)))))"

section \<open>URL parsing (url-parse, querystringify)\<close>

text \<open>
  Modelled from the spec: \<open>URL\<close> is the constructor of the url-parse package, which reads
  the query string with querystringify; both are dependencies that are not part of the
  repository's sources. The spec says that the URL is parsed into components (scheme, host,
  path, query parameters) and re-serialised; the model follows the rule table of url-parse
  1.1 on absolute URLs: the fragment from the first \<open>#\<close>, the query from the first
  \<open>?\<close>, the path from the first \<open>/\<close>, credentials before \<open>@\<close>, the host in
  lower case, a default port dropped. A query object is an association list in insertion
  order with distinct keys. Outside the model: a base location (there is none outside a
  browser), percent escapes that are malformed or denote non-ASCII text (the library
  raises or yields non-ASCII characters there; the model keeps the escape as written), and
  the numeric ordering that JavaScript gives to integer-like property names.
\<close>

record parsed_url =
  protocol :: string
  slashes :: bool
  username :: string
  password :: string
  host :: string
  port :: string
  hostname :: string
  pathname :: string
  query :: "(string \<times> string) list"
  hash :: string

definition break_at :: "char \<Rightarrow> string \<Rightarrow> string \<times> string" where
  "break_at c s = (takeWhile (\<lambda>x. x \<noteq> c) s, dropWhile (\<lambda>x. x \<noteq> c) s)"

definition is_alpha :: "char \<Rightarrow> bool" where
  "is_alpha c = (let n = (of_char (lower_char c) :: nat) in 97 \<le> n \<and> n \<le> 122)"

definition is_digit :: "char \<Rightarrow> bool" where
  "is_digit c = (let n = (of_char c :: nat) in 48 \<le> n \<and> n \<le> 57)"

definition is_scheme_char :: "char \<Rightarrow> bool" where
  "is_scheme_char c = (is_alpha c \<or> is_digit c \<or> c = CHR ''.'' \<or> c = CHR ''+'' \<or> c = CHR ''-'')"

text \<open>
  The protocol, whether \<open>//\<close> follows, and the rest:
  \<open>/^([a-z][a-z0-9.+-]*:)?(\/\/)?([\S\s]*)/i\<close>.
\<close>

definition extractProtocol :: "string \<Rightarrow> string \<times> bool \<times> string" where
  "extractProtocol address =
     (let r = dropWhile is_scheme_char address;
          has = (address \<noteq> [] \<and> is_alpha (hd address) \<and> r \<noteq> [] \<and> hd r = CHR '':'');
          proto = (if has then toLowerCase (takeWhile is_scheme_char address @ '':'') else []);
          rest = (if has then tl r else address);
          sl = startsWith rest ''//''
      in (proto, sl, if sl then drop 2 rest else rest))"

definition int_of_digits :: "string \<Rightarrow> int" where
  "int_of_digits s = foldl (\<lambda>n c. 10 * n + (of_char c - 48)) 0 s"

text \<open>The port rule \<open>/:(\d+)$/\<close>: the host without it, and the digits.\<close>

definition split_port :: "string \<Rightarrow> string \<times> string" where
  "split_port a =
     (let d = rev (takeWhile is_digit (rev a));
          pre = rev (dropWhile is_digit (rev a))
      in if d \<noteq> [] \<and> pre \<noteq> [] \<and> last pre = CHR '':'' then (butlast pre, d) else (a, []))"

text \<open>\<open>required(port, protocol)\<close> of the requires-port package: is the port not the default one?\<close>

definition requiredPort :: "string \<Rightarrow> string \<Rightarrow> bool" where
  "requiredPort prt proto =
     (let p = int_of_digits prt; scheme = hd (js_split CHR '':'' proto)
      in if prt = [] \<or> p = 0 then False
         else if scheme = ''http'' \<or> scheme = ''ws'' then p \<noteq> 80
         else if scheme = ''https'' \<or> scheme = ''wss'' then p \<noteq> 443
         else if scheme = ''ftp'' then p \<noteq> 21
         else if scheme = ''gopher'' then p \<noteq> 70
         else if scheme = ''file'' then False
         else True)"

definition hexval :: "char \<Rightarrow> nat option" where
  "hexval c =
     (let n = (of_char (lower_char c) :: nat)
      in if is_digit c then Some (n - 48)
         else if 97 \<le> n \<and> n \<le> 102 then Some (n - 87)
         else None)"

text \<open>\<open>decodeURIComponent\<close>, on escapes of ASCII characters.\<close>

fun decodeURIComponent :: "string \<Rightarrow> string" where
  "decodeURIComponent [] = []"
| "decodeURIComponent [c] = [c]"
| "decodeURIComponent [c, a] = [c, a]"
| "decodeURIComponent (c # a # b # r) =
     (case (c = CHR ''%'', hexval a, hexval b) of
        (True, Some x, Some y) \<Rightarrow>
          (if 16 * x + y < 128 then char_of (16 * x + y) # decodeURIComponent r
           else c # decodeURIComponent (a # b # r))
      | _ \<Rightarrow> c # decodeURIComponent (a # b # r))"

text \<open>querystringify's \<open>decode\<close>: a plus sign is a space, then the escapes are decoded.\<close>

definition qs_decode :: "string \<Rightarrow> string" where
  "qs_decode s = decodeURIComponent (map (\<lambda>c. if c = CHR ''+'' then CHR '' '' else c) s)"

definition is_unreserved :: "char \<Rightarrow> bool" where
  "is_unreserved c = (is_alpha c \<or> is_digit c \<or> c \<in> set ''-_.!~*'' \<or> c = CHR 0x27 \<or> c \<in> set ''()'')"

definition upper_hexdigit :: "nat \<Rightarrow> char" where
  "upper_hexdigit n = ''0123456789ABCDEF'' ! n"

definition encodeURIComponent :: "string \<Rightarrow> string" where
  "encodeURIComponent s =
     concat (map (\<lambda>c. if is_unreserved c then [c]
                       else [CHR ''%'', upper_hexdigit (of_char c div 16), upper_hexdigit (of_char c mod 16)]) s)"

text \<open>Assignment \<open>obj[k] = v\<close>: an existing property keeps its place.\<close>

fun obj_set :: "string \<Rightarrow> 'v \<Rightarrow> (string \<times> 'v) list \<Rightarrow> (string \<times> 'v) list" where
  "obj_set k v [] = [(k, v)]"
| "obj_set k v (p # ps) = (if fst p = k then (k, v) # ps else p # obj_set k v ps)"

definition is_qs_sep :: "char \<Rightarrow> bool" where
  "is_qs_sep c = (c = CHR ''='' \<or> c = CHR ''?'' \<or> c = CHR ''&'')"

text \<open>
  The matches of querystringify's scanner \<open>/([^=?&]+)=?([^&]*)/g\<close>, from left to right:
  a key is a longest run without \<open>=\<close>, \<open>?\<close>, \<open>&\<close>; an equals sign after it is
  skipped; the value runs to the next \<open>&\<close>.
\<close>

function qs_scan :: "string \<Rightarrow> (string \<times> string) list" where
  "qs_scan s =
     (let s1 = dropWhile is_qs_sep s
      in if s1 = [] then []
         else let k = takeWhile (\<lambda>c. \<not> is_qs_sep c) s1;
                  r = dropWhile (\<lambda>c. \<not> is_qs_sep c) s1;
                  r' = (if r \<noteq> [] \<and> hd r = CHR ''='' then tl r else r)
              in (k, takeWhile (\<lambda>c. c \<noteq> CHR ''&'') r') # qs_scan (dropWhile (\<lambda>c. c \<noteq> CHR ''&'') r'))"
  by pat_completeness auto

termination
proof (relation "measure length")
  show "wf (measure length)" by simp
next
  fix s s1 k r r'
  assume s1: "s1 = dropWhile is_qs_sep s" and ne: "s1 \<noteq> []"
    and r: "r = dropWhile (\<lambda>c. \<not> is_qs_sep c) s1"
    and r': "r' = (if r \<noteq> [] \<and> hd r = CHR ''='' then tl r else r)"
  have "length r' \<le> length r" using r' by simp
  moreover have "length r < length s1"
  proof (cases s1)
    case Nil
    with ne show ?thesis by simp
  next
    case (Cons c cs)
    have "dropWhile is_qs_sep s = c # cs" using s1 Cons by simp
    then have "\<not> is_qs_sep c" by (simp add: dropWhile_eq_Cons_conv)
    then have "r = dropWhile (\<lambda>c. \<not> is_qs_sep c) cs" using r Cons by simp
    then show ?thesis using Cons length_dropWhile_le [of "\<lambda>c. \<not> is_qs_sep c" cs] by simp
  qed
  moreover have "length s1 \<le> length s" using s1 by (simp add: length_dropWhile_le)
  moreover have "length (dropWhile (\<lambda>c. c \<noteq> CHR ''&'') r') \<le> length r'"
    by (simp add: length_dropWhile_le)
  ultimately show "(dropWhile (\<lambda>c. c \<noteq> CHR ''&'') r', s) \<in> measure length" by simp
qed

declare qs_scan.simps [simp del]

text \<open>\<open>qs.parse\<close>: each match assigns \<open>result[decode(key)] = decode(value)\<close>.\<close>

definition qs_parse :: "string \<Rightarrow> (string \<times> string) list" where
  "qs_parse q = foldl (\<lambda>obj (k, v). obj_set (qs_decode k) (qs_decode v) obj) [] (qs_scan q)"

text \<open>\<open>qs.stringify\<close>: \<open>key=value\<close> pairs, both encoded, joined by \<open>&\<close>.\<close>

definition qs_stringify :: "(string \<times> string) list \<Rightarrow> string" where
  "qs_stringify obj =
     js_join ''&'' (map (\<lambda>(k, v). encodeURIComponent k @ ''='' @ encodeURIComponent v) obj)"

text \<open>
  \<open>new URL(address, null, true)\<close>. Without \<open>//\<close> the whole rest, up to a line break, is
  the path. The query is parsed into an object; \<open>new URL(address)\<close> differs only in
  leaving the query a string, which the code then never reads.
\<close>

definition URL :: "string \<Rightarrow> parsed_url" where
  "URL address =
     (case extractProtocol address of (proto, sl, rest) \<Rightarrow>
      case break_at CHR ''#'' rest of (a1, hsh) \<Rightarrow>
      case break_at CHR ''?'' a1 of (a2, q) \<Rightarrow>
      case (if sl then break_at CHR ''/'' a2
            else ([], takeWhile (\<lambda>c. c \<noteq> CHR 0x0A \<and> c \<noteq> CHR 0x0D) a2)) of (a3, pth) \<Rightarrow>
      case (if CHR ''@'' \<in> set a3
            then (takeWhile (\<lambda>c. c \<noteq> CHR ''@'') a3, tl (dropWhile (\<lambda>c. c \<noteq> CHR ''@'') a3))
            else ([], a3)) of (au, a4) \<Rightarrow>
      case split_port a4 of (a5, prt) \<Rightarrow>
      let keep = requiredPort prt proto;
          cred = js_split CHR '':'' au
      in \<lparr> protocol = proto,
           slashes = sl,
           username = hd cred,
           password = (if length cred > 1 then cred ! 1 else []),
           host = (if keep then toLowerCase a4 else toLowerCase a5),
           port = (if keep then prt else []),
           hostname = toLowerCase a5,
           pathname = pth,
           query = qs_parse q,
           hash = hsh \<rparr>)"

text \<open>
  The query of \<open>new URL(address)\<close>, which is not parsed: the text from the first
  \<open>?\<close> up to the fragment, as written.
\<close>

definition url_query_string :: "string \<Rightarrow> string" where
  "url_query_string address =
     (case extractProtocol address of (proto, sl, rest) \<Rightarrow>
        snd (break_at CHR ''?'' (fst (break_at CHR ''#'' rest))))"

text \<open>\<open>url.toString()\<close>, the query object written by \<open>qs.stringify\<close>.\<close>

definition url_toString :: "parsed_url \<Rightarrow> string" where
  "url_toString u =
     (let q = qs_stringify (query u)
      in protocol u @ (if slashes u then ''//'' else [])
         @ (if username u \<noteq> []
            then username u @ (if password u \<noteq> [] then '':'' @ password u else []) @ ''@''
            else [])
         @ host u @ pathname u
         @ (if q \<noteq> [] then ''?'' @ q else [])
         @ hash u)"

section \<open>Path utilities (src/utils/pathUtils.js)\<close>

definition defaultImageTypes :: "string list" where
  "defaultImageTypes = [''png'', ''jpeg'', ''jpg'', ''gif'', ''bmp'', ''tiff'', ''tif'']"

text \<open>
  \<open>serializeObjectKeys\<close>: the pairs of the object, sorted by key, and of each pair only the
  value.
\<close>

definition serializeObjectKeys :: "(string \<times> string) list \<Rightarrow> string list" where
  "serializeObjectKeys obj = map snd (sort_key fst obj)"

text \<open>
  \<open>_.pick(obj, names)\<close> for plain property names: the properties of \<open>obj\<close> that are named,
  in the order in which the names first occur.
\<close>

definition pick :: "(string \<times> string) list \<Rightarrow> string list \<Rightarrow> (string \<times> string) list" where
  "pick obj names =
     concat (map (\<lambda>k. case map_of obj k of None \<Rightarrow> [] | Some v \<Rightarrow> [(k, v)]) (rev (remdups (rev names))))"

text \<open>
  \<open>getQueryForCacheKey\<close>: an array of values when the option is an array of names or is
  truthy, the empty string otherwise.
\<close>

definition getQueryForCacheKey :: "parsed_url \<Rightarrow> jsval \<Rightarrow> jsval" where
  "getQueryForCacheKey url useQueryParamsInCacheKey =
     (case useQueryParamsInCacheKey of
        JArr names \<Rightarrow>
          JArr (map JStr (serializeObjectKeys (pick (query url) (map js_toString names))))
      | _ \<Rightarrow>
          if truthy useQueryParamsInCacheKey
          then JArr (map JStr (serializeObjectKeys (query url)))
          else JStr [])"

text \<open>
  \<open>hashCode\<close>: \<open>h = (Math.imul(31, h) + s.charCodeAt(i)) | 0\<close> over the characters, a
  signed 32-bit integer.
\<close>

definition hashCode :: "string \<Rightarrow> int" where
  "hashCode s = sint (foldl (\<lambda>h c. 31 * h + of_nat (of_char c)) (0 :: 32 word) s)"

text \<open>
  \<open>generateCacheKey(url, useQueryParamsInCacheKey = true)\<close>: an \<open>undefined\<close> second
  argument is the default \<open>true\<close>. \<open>generateCacheKey_locals\<close> is the body of the function
  up to its \<open>return\<close>, giving the values of the local variables \<open>cacheable\<close> and
  \<open>type\<close>; \<open>generateCacheKey\<close> is the \<open>return\<close> statement. The two hash codes of
  the formula branch are added as numbers, without wrap-around.
\<close>

definition generateCacheKey_locals :: "string \<Rightarrow> jsval \<Rightarrow> string \<times> string" where
  "generateCacheKey_locals url useQueryParamsInCacheKey =
     (let parsedUrl = URL url;
          pathParts = js_split CHR ''/'' (pathname parsedUrl);
          fileName = last pathParts;
          filePath = js_join ''/'' (butlast pathParts);
          parts = js_split CHR ''.'' fileName;
          fileType = (if length parts > 1 then toLowerCase (last parts) else []);
          type = (if List.member defaultImageTypes fileType then fileType else ''jpg'');
          formulaFlag = ''cgi-bin/math.cgi?'';
          cacheable =
            (if js_includes url formulaFlag
             then let formulaParams = drop (the (indexOf url formulaFlag)) url;
                      mergeHashCode =
                        hashCode (take (length formulaParams div 2) formulaParams) +
                        hashCode (drop (length formulaParams div 2) formulaParams)
                  in filePath @ fileName @ type @ show_int mergeHashCode
             else filePath @ fileName @ type @
                  js_toString (getQueryForCacheKey parsedUrl
                    (if useQueryParamsInCacheKey = JUndefined then JBool True
                     else useQueryParamsInCacheKey)))
      in (cacheable, type))"

definition generateCacheKey :: "string \<Rightarrow> jsval \<Rightarrow> string" where
  "generateCacheKey url useQueryParamsInCacheKey =
     (case generateCacheKey_locals url useQueryParamsInCacheKey of
        (cacheable, type) \<Rightarrow> SHA1 cacheable @ ''.'' @ type)"

text \<open>
  \<open>getHostCachePathComponent\<close>: in the host every \<open>.:\<close> and then every character
  outside \<open>[a-z0-9_]\<close> (letters of either case) becomes \<open>_\<close>; lower case; then \<open>_\<close>
  and the SHA-1 of the host.
\<close>

fun replace_dot_colon :: "string \<Rightarrow> string" where
  "replace_dot_colon (a # b # r) =
     (if a = CHR ''.'' \<and> b = CHR '':'' then CHR ''_'' # replace_dot_colon r
      else a # replace_dot_colon (b # r))"
| "replace_dot_colon r = r"

definition sanitize_char :: "char \<Rightarrow> char" where
  "sanitize_char c = (if is_alpha c \<or> is_digit c \<or> c = CHR ''_'' then c else CHR ''_'')"

definition getHostCachePathComponent :: "string \<Rightarrow> string" where
  "getHostCachePathComponent url =
     (let h = host (URL url)
      in toLowerCase (map sanitize_char (replace_dot_colon h)) @ ''_'' @ SHA1 h)"

definition getImageFilePath :: "string \<Rightarrow> string \<Rightarrow> string" where
  "getImageFilePath url cacheLocation =
     (let hostCachePath = getHostCachePathComponent url;
          cacheKey = generateCacheKey url JUndefined
      in cacheLocation @ ''/'' @ hostCachePath @ ''/'' @ cacheKey)"

definition getImageRelativeFilePath :: "string \<Rightarrow> string" where
  "getImageRelativeFilePath url =
     (let hostCachePath = getHostCachePathComponent url;
          cacheKey = generateCacheKey url JUndefined
      in hostCachePath @ ''/'' @ cacheKey)"

text \<open>
  \<open>getCacheableUrl\<close>: an array of names keeps the named parameters, a falsy option
  removes all of them, and the URL is written back.
\<close>

definition getCacheableUrl :: "string \<Rightarrow> jsval \<Rightarrow> string" where
  "getCacheableUrl url useQueryParamsInCacheKey =
     (let parsedUrl = URL url;
          parsedUrl1 =
            (case useQueryParamsInCacheKey of
               JArr names \<Rightarrow> parsedUrl\<lparr>query := pick (query parsedUrl) (map js_toString names)\<rparr>
             | _ \<Rightarrow> parsedUrl);
          parsedUrl2 =
            (if \<not> truthy useQueryParamsInCacheKey then parsedUrl1\<lparr>query := []\<rparr> else parsedUrl1)
      in url_toString parsedUrl2)"

section \<open>The collaborators: options objects, record store, file system\<close>

text \<open>
  An options object is a mutable JavaScript object: a partial map from property names to
  values, held in a heap of objects so that writes to it, and aliasing between the caller's
  object and the default options, are visible. A missing property reads as
  \<open>undefined\<close>.
\<close>

type_synonym obj = "string \<rightharpoonup> jsval"
type_synonym ref = nat

definition getProp :: "obj \<Rightarrow> string \<Rightarrow> jsval" where
  "getProp ob k = (case ob k of None \<Rightarrow> JUndefined | Some v \<Rightarrow> v)"

datatype error = Error string

datatype 'a promise = Resolved 'a | Rejected error

text \<open>What a download of a URL does: it writes the file, or fails and may leave a partial file.\<close>

datatype fetch_outcome = Fetched | FetchFailed error bool

text \<open>The calls made to the record store and to the file system, in order.\<close>

datatype event =
    CacheGet string
  | CacheSet string string jsval
  | CacheRemove string
  | CacheFlush
  | FsExists string
  | FsDeleteFile string
  | FsDownloadFile string string jsval
  | FsCopyFile string string
  | FsCleanDir string
  | FsGetDirInfo string

record world =
  heap :: "ref \<Rightarrow> obj"
  urlCache :: "string \<rightharpoonup> string \<times> jsval"
  files :: "string set"
  network :: "string \<Rightarrow> fetch_outcome"
  cacheDir :: string
  trace :: "event list"

definition emit :: "event \<Rightarrow> world \<Rightarrow> world" where
  "emit e w = w\<lparr>trace := trace w @ [e]\<rparr>"

text \<open>
  Modelled from the spec: the record store (\<open>MemoryCache\<close> of react-native-clcasher) is
  not part of the repository's sources. The spec gives \<open>get(key) -> relativePath|absent\<close>,
  \<open>set(key, relativePath, ttlSeconds) -> ack\<close>, \<open>remove(key) -> ack\<close> and
  \<open>flush() -> ack\<close>. An entry is kept with the time to live it was written with; expiry
  is the store's own business and happens between calls, as a removal of the entry.
\<close>

definition urlCache_get :: "string \<Rightarrow> world \<Rightarrow> string option \<times> world" where
  "urlCache_get key w = (map_option fst (urlCache w key), emit (CacheGet key) w)"

definition urlCache_set :: "string \<Rightarrow> string \<Rightarrow> jsval \<Rightarrow> world \<Rightarrow> world" where
  "urlCache_set key v ttl w = emit (CacheSet key v ttl) (w\<lparr>urlCache := (urlCache w)(key \<mapsto> (v, ttl))\<rparr>)"

definition urlCache_remove :: "string \<Rightarrow> world \<Rightarrow> world" where
  "urlCache_remove key w = emit (CacheRemove key) (w\<lparr>urlCache := (urlCache w)(key := None)\<rparr>)"

definition urlCache_flush :: "world \<Rightarrow> world" where
  "urlCache_flush w = emit CacheFlush (w\<lparr>urlCache := Map.empty\<rparr>)"

text \<open>
  Modelled from the spec: the file system utilities (\<open>./utils/fsUtils\<close>) are not among
  the sources. The spec gives \<open>exists(path) -> bool\<close>, \<open>deleteFile(path) -> ack\<close>
  (idempotent on absence), \<open>downloadFile(url, destPath, headers) -> ack|error\<close>,
  \<open>copyFile(srcPath, destPath) -> ack|error\<close>, \<open>cleanDir(path) -> ack\<close>,
  \<open>getDirInfo(path)\<close> and \<open>getDefaultCacheDir() -> path\<close>. The file system is the
  set of paths that exist; file contents and sizes are not modelled.
\<close>

definition fs_exists :: "string \<Rightarrow> world \<Rightarrow> bool \<times> world" where
  "fs_exists p w = (p \<in> files w, emit (FsExists p) w)"

definition fs_deleteFile :: "string \<Rightarrow> world \<Rightarrow> world" where
  "fs_deleteFile p w = emit (FsDeleteFile p) (w\<lparr>files := files w - {p}\<rparr>)"

definition fs_downloadFile :: "string \<Rightarrow> string \<Rightarrow> jsval \<Rightarrow> world \<Rightarrow> unit promise \<times> world" where
  "fs_downloadFile url dest headers w =
     (case network w url of
        Fetched \<Rightarrow>
          (Resolved (), emit (FsDownloadFile url dest headers) (w\<lparr>files := insert dest (files w)\<rparr>))
      | FetchFailed e partial \<Rightarrow>
          (Rejected e,
           emit (FsDownloadFile url dest headers)
             (w\<lparr>files := (if partial then insert dest (files w) else files w)\<rparr>)))"

definition fs_copyFile :: "string \<Rightarrow> string \<Rightarrow> world \<Rightarrow> unit promise \<times> world" where
  "fs_copyFile src dest w =
     (if src \<in> files w
      then (Resolved (), emit (FsCopyFile src dest) (w\<lparr>files := insert dest (files w)\<rparr>))
      else (Rejected (Error ''source file does not exist''), emit (FsCopyFile src dest) w))"

definition in_dir :: "string \<Rightarrow> string \<Rightarrow> bool" where
  "in_dir dir p = startsWith p (dir @ ''/'')"

definition fs_cleanDir :: "string \<Rightarrow> world \<Rightarrow> world" where
  "fs_cleanDir dir w = emit (FsCleanDir dir) (w\<lparr>files := Set.filter (\<lambda>p. \<not> in_dir dir p) (files w)\<rparr>)"

definition fs_getDirInfo :: "string \<Rightarrow> world \<Rightarrow> string set \<times> world" where
  "fs_getDirInfo dir w = (Set.filter (in_dir dir) (files w), emit (FsGetDirInfo dir) w)"

text \<open>
  \<open>_.defaults(object, source)\<close>: every property of the source whose value in the object
  is \<open>undefined\<close> is assigned to the object. The object is changed in place; the source
  is only read.
\<close>

definition defaults :: "obj \<Rightarrow> obj \<Rightarrow> obj" where
  "defaults object source =
     (\<lambda>k. if source k \<noteq> None \<and> getProp object k = JUndefined then source k else object k)"

definition lodash_defaults :: "ref \<Rightarrow> ref \<Rightarrow> world \<Rightarrow> world" where
  "lodash_defaults object source w =
     w\<lparr>heap := (heap w)(object := defaults (heap w object) (heap w source))\<rparr>"

section \<open>The image cache manager (src/unnamed/part_000)\<close>

text \<open>
  The module is a factory: called with a default options object, it fills that object from
  the built-in defaults and returns the public operations, which all close over it. Here
  the record store, the file system and the path utilities are the default ones.
\<close>

definition defaultDefaultOptions :: "world \<Rightarrow> obj" where
  "defaultDefaultOptions w =
     [''headers'' \<mapsto> JObj [],
      ''ttl'' \<mapsto> JNum (60 * 60 * 24 * 14),
      ''useQueryParamsInCacheKey'' \<mapsto> JBool False,
      ''cacheLocation'' \<mapsto> JStr (cacheDir w),
      ''allowSelfSignedSSL'' \<mapsto> JBool False]"

definition ImageCacheManager :: "ref \<Rightarrow> world \<Rightarrow> world" where
  "ImageCacheManager defaultOptions w =
     w\<lparr>heap := (heap w)(defaultOptions := defaults (heap w defaultOptions) (defaultDefaultOptions w))\<rparr>"

definition isCacheable :: "jsval \<Rightarrow> bool" where
  "isCacheable url =
     (case url of
        JStr s \<Rightarrow> startsWith (toLowerCase s) ''http://'' \<or> startsWith (toLowerCase s) ''https://''
      | _ \<Rightarrow> False)"

text \<open>
  \<open>cacheUrl(url, options, getCachedFile)\<close>. The promise chain is written out as its two
  handlers. \<open>cacheUrl_then\<close> is the handler of \<open>urlCache.get(cacheableUrl)\<close>: it yields
  the cached path, or \<open>None\<close> where the source throws (no record, or no file).
  \<open>cacheUrl_catch\<close> is the handler of that failure, the miss branch. The callback
  \<open>getCachedFile\<close> may change the world and the local state \<open>'l\<close> of the closure it
  comes from.
\<close>

definition cacheUrl_then :: "ref \<Rightarrow> string \<Rightarrow> world \<Rightarrow> string option \<times> world" where
  "cacheUrl_then options cacheableUrl w =
     (case urlCache_get cacheableUrl w of (found, w2) \<Rightarrow>
      case found of
        None \<Rightarrow> (None, w2)
      | Some fileRelativePath \<Rightarrow>
          if fileRelativePath = [] then (None, w2)
          else
            let cachedFilePath =
                  js_toString (getProp (heap w2 options) ''cacheLocation'') @ ''/'' @ fileRelativePath
            in case fs_exists cachedFilePath w2 of (ex, w3) \<Rightarrow>
               if ex then (Some cachedFilePath, w3) else (None, w3))"

definition cacheUrl_catch ::
  "ref \<Rightarrow> string \<Rightarrow> (string \<Rightarrow> 'l \<times> world \<Rightarrow> unit promise \<times> 'l \<times> world)
     \<Rightarrow> 'l \<times> world \<Rightarrow> string promise \<times> 'l \<times> world"
where
  "cacheUrl_catch options cacheableUrl getCachedFile lw =
     (case lw of (l, w) \<Rightarrow>
      let fileRelativePath = getImageRelativeFilePath cacheableUrl;
          filePath = js_toString (getProp (heap w options) ''cacheLocation'') @ ''/'' @ fileRelativePath
      in case getCachedFile filePath (l, fs_deleteFile filePath w) of
           (Rejected e, l', w') \<Rightarrow> (Rejected e, l', w')
         | (Resolved u, l', w') \<Rightarrow>
             (Resolved filePath, l',
              urlCache_set cacheableUrl fileRelativePath (getProp (heap w' options) ''ttl'') w'))"

definition cacheUrl ::
  "ref \<Rightarrow> jsval \<Rightarrow> ref \<Rightarrow> (string \<Rightarrow> 'l \<times> world \<Rightarrow> unit promise \<times> 'l \<times> world)
     \<Rightarrow> 'l \<times> world \<Rightarrow> string promise \<times> 'l \<times> world"
where
  "cacheUrl defaultOptions url options getCachedFile lw =
     (case lw of (l, w) \<Rightarrow>
      if \<not> isCacheable url then (Rejected (Error ''Url is not cacheable''), l, w)
      else
        let w1 = lodash_defaults options defaultOptions w;
            cacheableUrl =
              getCacheableUrl (js_toString url) (getProp (heap w1 options) ''useQueryParamsInCacheKey'')
        in case cacheUrl_then options cacheableUrl w1 of
             (Some cachedFilePath, w3) \<Rightarrow> (Resolved cachedFilePath, l, w3)
           | (None, w3) \<Rightarrow> cacheUrl_catch options cacheableUrl getCachedFile (l, w3))"

text \<open>
  \<open>isCachedURL\<close>: the callback only sets the flag \<open>noCached\<close>; the result is its
  negation.
\<close>

definition isCachedURL :: "ref \<Rightarrow> jsval \<Rightarrow> ref \<Rightarrow> world \<Rightarrow> bool promise \<times> world" where
  "isCachedURL defaultOptions url options w =
     (case cacheUrl defaultOptions url options
             (\<lambda>filePath (noCached, w'). (Resolved (), True, w')) (False, w) of
        (Rejected e, noCached, w') \<Rightarrow> (Rejected e, w')
      | (Resolved p, noCached, w') \<Rightarrow> (Resolved (\<not> noCached), w'))"

definition isURLCacheable :: "jsval \<Rightarrow> bool" where
  "isURLCacheable url = isCacheable url"

definition downloadAndCacheUrl :: "ref \<Rightarrow> jsval \<Rightarrow> ref \<Rightarrow> world \<Rightarrow> string promise \<times> world" where
  "downloadAndCacheUrl defaultOptions url options w =
     (case cacheUrl defaultOptions url options
             (\<lambda>filePath (u, w').
                case fs_downloadFile (js_toString url) filePath (getProp (heap w' options) ''headers'') w' of
                  (r, w'') \<Rightarrow> (r, u, w''))
             ((), w) of
        (r, u, w') \<Rightarrow> (r, w'))"

definition seedAndCacheUrl :: "ref \<Rightarrow> jsval \<Rightarrow> string \<Rightarrow> ref \<Rightarrow> world \<Rightarrow> string promise \<times> world" where
  "seedAndCacheUrl defaultOptions url seedPath options w =
     (case cacheUrl defaultOptions url options
             (\<lambda>filePath (u, w'). case fs_copyFile seedPath filePath w' of (r, w'') \<Rightarrow> (r, u, w''))
             ((), w) of
        (r, u, w') \<Rightarrow> (r, w'))"

definition deleteUrl :: "ref \<Rightarrow> jsval \<Rightarrow> ref \<Rightarrow> world \<Rightarrow> unit promise \<times> world" where
  "deleteUrl defaultOptions url options w =
     (if \<not> isCacheable url then (Rejected (Error ''Url is not cacheable''), w)
      else
        let w1 = lodash_defaults options defaultOptions w;
            cacheableUrl =
              getCacheableUrl (js_toString url) (getProp (heap w1 options) ''useQueryParamsInCacheKey'');
            filePath = getImageFilePath cacheableUrl (js_toString (getProp (heap w1 options) ''cacheLocation''))
        in (Resolved (), fs_deleteFile filePath (urlCache_remove cacheableUrl w1)))"

definition clearCache :: "ref \<Rightarrow> ref \<Rightarrow> world \<Rightarrow> unit promise \<times> world" where
  "clearCache defaultOptions options w =
     (let w1 = lodash_defaults options defaultOptions w
      in (Resolved (),
          fs_cleanDir (js_toString (getProp (heap w1 options) ''cacheLocation'')) (urlCache_flush w1)))"

definition getCacheInfo :: "ref \<Rightarrow> ref \<Rightarrow> world \<Rightarrow> string set promise \<times> world" where
  "getCacheInfo defaultOptions options w =
     (let w1 = lodash_defaults options defaultOptions w
      in case fs_getDirInfo (js_toString (getProp (heap w1 options) ''cacheLocation'')) w1 of
           (info, w2) \<Rightarrow> (Resolved info, w2))"

section \<open>Vocabulary of the specification\<close>

text \<open>
  The specification's words "a string starting, case-insensitively, with the prefix",
  written independently of \<open>isCacheable\<close>: the string is at least as long as
  the prefix and agrees with it character by character up to the case of letters.
\<close>

definition startsWithIgnoringCase :: "string \<Rightarrow> string \<Rightarrow> bool" where
  "startsWithIgnoringCase s p =
     (length p \<le> length s \<and> list_all2 (\<lambda>a b. lower_char a = lower_char b) (take (length p) s) p)"

text \<open>
  The query parameters of a URL as they are written, in their order, names and values
  decoded: the pairs that querystringify assigns to the query object one after the other.
  Two URLs have the same parameters in another order when these lists are permutations of
  each other, and a URL repeats no parameter name when the names in its list are distinct.
\<close>

definition queryParameters :: "string \<Rightarrow> (string \<times> string) list" where
  "queryParameters url =
     map (\<lambda>(k, v). (qs_decode k, qs_decode v)) (qs_scan (url_query_string url))"

text \<open>A world for examples: nothing cached, no files, every download succeeds.\<close>

definition emptyWorld :: world where
  "emptyWorld =
     \<lparr> heap = (\<lambda>r. Map.empty), urlCache = Map.empty, files = {}, network = (\<lambda>u. Fetched),
       cacheDir = ''/cache'', trace = [] \<rparr>"

text \<open>
  The world after the factory has been called with an empty default options object, held at
  reference 0. Reference 1 holds an empty object, the caller's \<open>options = {}\<close>.
\<close>

definition readyWorld :: world where
  "readyWorld = ImageCacheManager 0 emptyWorld"

text \<open>The same world with a network on which every download fails.\<close>

definition offlineWorld :: world where
  "offlineWorld = readyWorld\<lparr>network := (\<lambda>u. FetchFailed (Error ''network down'') False)\<rparr>"

text \<open>
  The same world with a dangling record: the canonical URL of the example has an entry, and
  no file exists.
\<close>

definition danglingWorld :: world where
  "danglingWorld =
     readyWorld\<lparr>urlCache :=
       [getCacheableUrl ''http://example.com/a/b/pic.PNG'' (JBool False) \<mapsto> (''gone/old.png'', JNum 60)]\<rparr>"

text \<open>
  The calls that the lookup of \<open>cacheUrl\<close> makes in a world, for the canonical URL \<open>c\<close>
  and the cache location \<open>loc\<close>: the get, and then the existence check when the store
  holds a non-empty path.
\<close>

definition lookupCalls :: "world \<Rightarrow> string \<Rightarrow> string \<Rightarrow> event list" where
  "lookupCalls w c loc =
     CacheGet c #
     (case urlCache w c of
        None \<Rightarrow> []
      | Some (r, t) \<Rightarrow> if r = [] then [] else [FsExists (loc @ ''/'' @ r)])"

section \<open>Evaluating SHA-1\<close>

lemma upt_0_numeral: "[0..<numeral n] = 0 # [Suc 0..<numeral n]"
  by (subst upt_rec) simp

lemma upt_1_numeral:
  "[Suc 0..<numeral n] = (if Suc 0 < numeral n then Suc 0 # [2..<numeral n] else [])"
  by (subst upt_rec) (simp add: numeral_2_eq_2)

lemma replicate_numeral: "replicate (numeral k) x = x # replicate (pred_numeral k) x"
  by (simp add: numeral_eq_Suc)

lemmas sha1_eval =
  SHA1_def sha1_pad_def sha1_blocks.simps sha1_block_def upt_0_numeral upt_1_numeral rotl_def
  sha1_f_def
  sha1_k_def hex32_def hexdigit_def Let_def replicate_numeral

text \<open>The standard test vector.\<close>

lemma sha1_abc: "SHA1 ''abc'' = ''a9993e364706816aba3e25717850c26c9cd0d89d''"
  by (simp add: sha1_eval)

lemma sha1_pic_code: "SHA1 ''/a/bpic.PNGpng'' = ''c924a5160e624da2ff0e3177901feef909a2f511''"
  by (simp add: sha1_eval)

lemma sha1_pic_spec: "SHA1 ''/a/b/pic.png'' = ''8453f6cf8fd64994f56f5a058f4ffb9d1e449797''"
  by (simp add: sha1_eval)

lemma sha1_formula_1: "SHA1 ''/cgi-binmath.cgijpg-2294999076'' = ''6e4b7a48d65b275648c09df3e9f1c85d4a57a0e4''"
  by (simp add: sha1_eval)

lemma sha1_formula_2: "SHA1 ''/cgi-binmath.cgijpg-2294999075'' = ''6c26e4a02d18b2610d7fcf2814ecd201e57add33''"
  by (simp add: sha1_eval)

section \<open>The key of an example URL\<close>

lemma locals_pic:
  "generateCacheKey_locals ''http://example.com/a/b/pic.PNG'' JUndefined =
     (''/a/bpic.PNGpng'', ''png'')"
  by code_simp

lemma host_pic: "host (URL ''http://example.com/a/b/pic.PNG'') = ''example.com''"
  by code_simp

lemma bucket_pic:
  "toLowerCase (map sanitize_char (replace_dot_colon ''example.com'')) = ''example_com''"
  by code_simp

text \<open>
  C2, as the code has it. For \<open>http://example.com/a/b/pic.PNG\<close> the relative path is the
  host bucket \<open>example_com_\<close> followed by the SHA-1 of \<open>example.com\<close>, a slash, and the
  cache key: the SHA-1 of \<open>/a/bpic.PNGpng\<close>, that is the directory \<open>/a/b\<close>, the file
  name \<open>pic.PNG\<close> as written and the resolved extension \<open>png\<close> put together without a
  separator, followed by \<open>.png\<close>.
\<close>

theorem example_relative_path:
  "getImageRelativeFilePath ''http://example.com/a/b/pic.PNG'' =
     (''example_com_'' @ SHA1 ''example.com'') @ ''/'' @ (SHA1 ''/a/bpic.PNGpng'' @ ''.png'')"
  unfolding getImageRelativeFilePath_def getHostCachePathComponent_def generateCacheKey_def
    Let_def locals_pic host_pic bucket_pic
  by simp

text \<open>
  C2, as the claim states it, fails: the cache key of that URL is not the SHA-1 of
  \<open>/a/b/pic.png\<close> followed by \<open>.png\<close>.
\<close>

theorem example_key_is_not_sha1_of_lowercased_path:
  "generateCacheKey ''http://example.com/a/b/pic.PNG'' JUndefined \<noteq>
     SHA1 ''/a/b/pic.png'' @ ''.png''"
  by (simp add: generateCacheKey_def locals_pic sha1_pic_code sha1_pic_spec)

section \<open>Formula URLs\<close>

lemma formula_sum_1: "show_int (hashCode ''cgi-bin/ma'' + hashCode ''th.cgi?x=1'') = ''-2294999076''"
  by code_simp

lemma formula_sum_2: "show_int (hashCode ''cgi-bin/ma'' + hashCode ''th.cgi?x=2'') = ''-2294999075''"
  by code_simp

lemma locals_formula_1:
  "generateCacheKey_locals ''http://h/cgi-bin/math.cgi?x=1'' p =
     (''/cgi-binmath.cgijpg-2294999076'', ''jpg'')"
  by code_simp

lemma locals_formula_2:
  "generateCacheKey_locals ''http://h/cgi-bin/math.cgi?x=2'' p =
     (''/cgi-binmath.cgijpg-2294999075'', ''jpg'')"
  by code_simp

text \<open>
  C6. The URLs \<open>http://h/cgi-bin/math.cgi?x=1\<close> and \<open>http://h/cgi-bin/math.cgi?x=2\<close>
  contain the formula marker, and have distinct cache keys whatever the query option is.
  The hashed string of each is the directory, the file name and the extension \<open>jpg\<close>
  followed by the sum of the hash codes of the two halves of the text from the marker on;
  the second halves, \<open>th.cgi?x=1\<close> and \<open>th.cgi?x=2\<close>, differ. The key is a function
  of the URL and the option, so repeated calls agree.
\<close>

theorem formula_urls_have_distinct_keys:
  "generateCacheKey ''http://h/cgi-bin/math.cgi?x=1'' p \<noteq>
     generateCacheKey ''http://h/cgi-bin/math.cgi?x=2'' p
   \<and> js_includes ''http://h/cgi-bin/math.cgi?x=1'' ''cgi-bin/math.cgi?''
   \<and> js_includes ''http://h/cgi-bin/math.cgi?x=2'' ''cgi-bin/math.cgi?''
   \<and> fst (generateCacheKey_locals ''http://h/cgi-bin/math.cgi?x=1'' p) =
       ''/cgi-bin'' @ ''math.cgi'' @ ''jpg'' @
       show_int (hashCode ''cgi-bin/ma'' + hashCode ''th.cgi?x=1'')
   \<and> fst (generateCacheKey_locals ''http://h/cgi-bin/math.cgi?x=2'' p) =
       ''/cgi-bin'' @ ''math.cgi'' @ ''jpg'' @
       show_int (hashCode ''cgi-bin/ma'' + hashCode ''th.cgi?x=2'')"
proof -
  have "js_includes ''http://h/cgi-bin/math.cgi?x=1'' ''cgi-bin/math.cgi?''"
    and "js_includes ''http://h/cgi-bin/math.cgi?x=2'' ''cgi-bin/math.cgi?''"
    by code_simp+
  moreover have "generateCacheKey ''http://h/cgi-bin/math.cgi?x=1'' p \<noteq>
      generateCacheKey ''http://h/cgi-bin/math.cgi?x=2'' p"
    by (simp add: generateCacheKey_def locals_formula_1 locals_formula_2 sha1_formula_1
        sha1_formula_2)
  ultimately show ?thesis
    by (simp add: locals_formula_1 locals_formula_2 formula_sum_1 formula_sum_2)
qed

section \<open>Parameter names do not reach the key\<close>

lemma locals_ab:
  "generateCacheKey_locals ''http://h/p?a=1&b=2'' JUndefined = (''pjpg1,2'', ''jpg'')"
  by code_simp

lemma locals_ac:
  "generateCacheKey_locals ''http://h/p?a=1&c=2'' JUndefined = (''pjpg1,2'', ''jpg'')"
  by code_simp

lemma query_ab: "query (URL ''http://h/p?a=1&b=2'') = [(''a'', ''1''), (''b'', ''2'')]"
  by code_simp

lemma query_ac: "query (URL ''http://h/p?a=1&c=2'') = [(''a'', ''1''), (''c'', ''2'')]"
  by code_simp

lemma cacheable_ab_ac:
  "isCacheable (JStr ''http://h/p?a=1&b=2'') \<and> isCacheable (JStr ''http://h/p?a=1&c=2'')"
  by code_simp

text \<open>
  C10. The serialisation keeps the values of the query parameters, sorted by name, and drops
  the names. The cacheable URLs \<open>http://h/p?a=1&b=2\<close> and \<open>http://h/p?a=1&c=2\<close> are
  distinct and their query objects name different parameters, yet \<open>generateCacheKey\<close>
  gives both the same key.
\<close>

theorem parameter_names_are_discarded:
  "generateCacheKey ''http://h/p?a=1&b=2'' JUndefined =
     generateCacheKey ''http://h/p?a=1&c=2'' JUndefined
   \<and> ''http://h/p?a=1&b=2'' \<noteq> ''http://h/p?a=1&c=2''
   \<and> query (URL ''http://h/p?a=1&b=2'') = [(''a'', ''1''), (''b'', ''2'')]
   \<and> query (URL ''http://h/p?a=1&c=2'') = [(''a'', ''1''), (''c'', ''2'')]
   \<and> serializeObjectKeys [(''a'', ''1''), (''b'', ''2'')] = [''1'', ''2'']
   \<and> serializeObjectKeys [(''a'', ''1''), (''c'', ''2'')] = [''1'', ''2'']
   \<and> isCacheable (JStr ''http://h/p?a=1&b=2'')
   \<and> isCacheable (JStr ''http://h/p?a=1&c=2'')"
  using cacheable_ab_ac
  by (simp add: generateCacheKey_def locals_ab locals_ac query_ab query_ac serializeObjectKeys_def)

section \<open>The order of query parameters\<close>

lemma obj_set_keys: "fst ` set (obj_set k v obj) = insert k (fst ` set obj)"
  by (induction obj) auto

lemma obj_set_distinct: "distinct (map fst obj) \<Longrightarrow> distinct (map fst (obj_set k v obj))"
proof (induction obj)
  case Nil
  then show ?case by simp
next
  case (Cons p ps)
  then show ?case
    using obj_set_keys [of k v ps] by (auto simp: image_iff)
qed

lemma foldl_obj_set_distinct:
  "distinct (map fst obj) \<Longrightarrow>
   distinct (map fst (foldl (\<lambda>obj (k, v). obj_set (f k) (g v) obj) obj kvs))"
  by (induction kvs arbitrary: obj) (auto simp: obj_set_distinct split: prod.splits)

lemma qs_parse_distinct: "distinct (map fst (qs_parse q))"
  unfolding qs_parse_def by (rule foldl_obj_set_distinct) simp

lemma URL_query: "\<exists>q. query (URL u) = qs_parse q"
  by (auto simp: URL_def Let_def split: prod.splits)

lemma query_distinct: "distinct (map fst (query (URL u)))"
  using URL_query [of u] qs_parse_distinct by auto

lemma sort_key_fst_unique:
  assumes a: "distinct (map fst a)" and b: "distinct (map fst b)" and ab: "set a = set b"
  shows "sort_key fst a = sort_key fst b"
proof -
  let ?xs = "sort_key fst a" and ?ys = "sort_key fst b"
  have inj: "inj_on fst (set a)" and da: "distinct a"
    using a by (simp_all add: distinct_map)
  have db: "distinct b"
    using b by (simp add: distinct_map)
  have dx: "distinct (map fst ?xs)"
    using inj da by (simp add: distinct_map)
  have dy: "distinct (map fst ?ys)"
    using inj db ab by (simp add: distinct_map)
  have sx: "sorted (map fst ?xs)" and sy: "sorted (map fst ?ys)"
    by simp_all
  have st: "set (map fst ?xs) = set (map fst ?ys)"
    using ab by simp
  have m: "map fst ?xs = map fst ?ys"
    by (rule sorted_distinct_set_unique [OF sx dx sy dy st])
  have "inj_on fst (set ?xs \<union> set ?ys)"
    using inj ab by simp
  then show ?thesis
    using m by (simp only: inj_on_map_eq_map)
qed

lemma serializeObjectKeys_order:
  "distinct (map fst a) \<Longrightarrow> distinct (map fst b) \<Longrightarrow> set a = set b \<Longrightarrow>
   serializeObjectKeys a = serializeObjectKeys b"
  unfolding serializeObjectKeys_def by (rule arg_cong [OF sort_key_fst_unique])

lemma pick_order:
  assumes "distinct (map fst a)" and "distinct (map fst b)" and "set a = set b"
  shows "pick a names = pick b names"
proof -
  have "map_of a = map_of b"
    using assms by (simp only: map_of_inject_set)
  then show ?thesis
    unfolding pick_def by (rule arg_cong)
qed

lemma getQueryForCacheKey_order:
  assumes "set (query (URL u1)) = set (query (URL u2))"
  shows "getQueryForCacheKey (URL u1) pol = getQueryForCacheKey (URL u2) pol"
proof -
  have s: "serializeObjectKeys (query (URL u1)) = serializeObjectKeys (query (URL u2))"
    by (rule serializeObjectKeys_order [OF query_distinct query_distinct assms])
  have p: "pick (query (URL u1)) names = pick (query (URL u2)) names" for names
    by (rule pick_order [OF query_distinct query_distinct assms])
  show ?thesis
    unfolding getQueryForCacheKey_def s p ..
qed

text \<open>Equal query objects give equal keys, in whatever order the entries stand.\<close>

lemma same_query_object_same_key:
  assumes "\<not> js_includes u1 ''cgi-bin/math.cgi?''" and "\<not> js_includes u2 ''cgi-bin/math.cgi?''"
    and "host (URL u1) = host (URL u2)"
    and "pathname (URL u1) = pathname (URL u2)"
    and "set (query (URL u1)) = set (query (URL u2))"
  shows "generateCacheKey u1 pol = generateCacheKey u2 pol
         \<and> getImageRelativeFilePath u1 = getImageRelativeFilePath u2"
proof -
  have "generateCacheKey_locals u1 p = generateCacheKey_locals u2 p" for p
    using assms(1,2,4) getQueryForCacheKey_order [OF assms(5)]
    by (simp add: generateCacheKey_locals_def Let_def)
  then have "generateCacheKey u1 p = generateCacheKey u2 p" for p
    by (simp add: generateCacheKey_def)
  then show ?thesis
    using assms(3) by (simp add: getImageRelativeFilePath_def getHostCachePathComponent_def Let_def)
qed

text \<open>Parameters with distinct names are the entries of the query object.\<close>

lemma query_URL: "query (URL u) = qs_parse (url_query_string u)"
  by (simp add: URL_def url_query_string_def Let_def split: prod.splits)

lemma qs_parse_queryParameters:
  "query (URL u) = foldl (\<lambda>obj (k, v). obj_set k v obj) [] (queryParameters u)"
  by (simp add: query_URL qs_parse_def queryParameters_def foldl_map case_prod_unfold)

lemma obj_set_fresh: "k \<notin> fst ` set obj \<Longrightarrow> obj_set k v obj = obj @ [(k, v)]"
  by (induction obj) auto

lemma foldl_obj_set_fresh:
  "distinct (map fst (acc @ ps)) \<Longrightarrow>
   foldl (\<lambda>obj (k, v). obj_set k v obj) acc ps = acc @ ps"
proof (induction ps arbitrary: acc)
  case Nil
  then show ?case by simp
next
  case (Cons p ps)
  obtain k v where p: "p = (k, v)" by (cases p)
  have fresh: "k \<notin> fst ` set acc"
    using Cons.prems p by auto
  have "distinct (map fst ((acc @ [(k, v)]) @ ps))"
    using Cons.prems p by simp
  then have "foldl (\<lambda>obj (k, v). obj_set k v obj) (acc @ [(k, v)]) ps = (acc @ [(k, v)]) @ ps"
    by (rule Cons.IH)
  then show ?case
    using p fresh by (simp add: obj_set_fresh)
qed

lemma query_of_distinct_parameters:
  "distinct (map fst (queryParameters u)) \<Longrightarrow> query (URL u) = queryParameters u"
  using foldl_obj_set_fresh [of "[]" "queryParameters u"]
  by (simp add: qs_parse_queryParameters)

lemma same_parameters_same_query:
  assumes m: "mset (queryParameters u1) = mset (queryParameters u2)"
    and d: "distinct (map fst (queryParameters u1))"
  shows "set (query (URL u1)) = set (query (URL u2))"
proof -
  have "mset (map fst (queryParameters u1)) = mset (map fst (queryParameters u2))"
    using m by (metis mset_map)
  then have d2: "distinct (map fst (queryParameters u2))"
    using d by (metis mset_eq_imp_distinct_iff)
  have "set (queryParameters u1) = set (queryParameters u2)"
    using m by (rule mset_eq_setD)
  then show ?thesis
    using d d2 by (simp add: query_of_distinct_parameters)
qed

text \<open>
  C7, as the code has it. Let two URLs without the formula marker have the same host and
  the same path, and the same query parameters in whatever order, no parameter name being
  repeated. Then \<open>generateCacheKey\<close> gives both the same key under every query option
  (true, false, or a list of names), and \<open>getImageRelativeFilePath\<close> gives both the same
  relative path: the values are serialised in the order of the sorted names.
\<close>

theorem query_order_does_not_matter:
  assumes "\<not> js_includes u1 ''cgi-bin/math.cgi?''" and "\<not> js_includes u2 ''cgi-bin/math.cgi?''"
    and "host (URL u1) = host (URL u2)"
    and "pathname (URL u1) = pathname (URL u2)"
    and "mset (queryParameters u1) = mset (queryParameters u2)"
    and "distinct (map fst (queryParameters u1))"
  shows "generateCacheKey u1 pol = generateCacheKey u2 pol
         \<and> getImageRelativeFilePath u1 = getImageRelativeFilePath u2"
  by (rule same_query_object_same_key
      [OF assms(1-4) same_parameters_same_query [OF assms(5,6)]])

lemma order_example_hyps:
  "\<not> js_includes ''http://h/a/p.png?a=1&b=2'' ''cgi-bin/math.cgi?''"
  "\<not> js_includes ''http://h/a/p.png?b=2&a=1'' ''cgi-bin/math.cgi?''"
  "host (URL ''http://h/a/p.png?a=1&b=2'') = host (URL ''http://h/a/p.png?b=2&a=1'')"
  "pathname (URL ''http://h/a/p.png?a=1&b=2'') = pathname (URL ''http://h/a/p.png?b=2&a=1'')"
  "set (query (URL ''http://h/a/p.png?a=1&b=2'')) = set (query (URL ''http://h/a/p.png?b=2&a=1''))"
  "query (URL ''http://h/a/p.png?a=1&b=2'') = [(''a'', ''1''), (''b'', ''2'')]"
  "query (URL ''http://h/a/p.png?b=2&a=1'') = [(''b'', ''2''), (''a'', ''1'')]"
  by code_simp+

lemma order_example_parameters:
  "queryParameters ''http://h/a/p.png?a=1&b=2'' = [(''a'', ''1''), (''b'', ''2'')]"
  "queryParameters ''http://h/a/p.png?b=2&a=1'' = [(''b'', ''2''), (''a'', ''1'')]"
  by code_simp+

lemma order_example_mset:
  "mset (queryParameters ''http://h/a/p.png?a=1&b=2'') =
     mset (queryParameters ''http://h/a/p.png?b=2&a=1'')"
  "distinct (map fst (queryParameters ''http://h/a/p.png?a=1&b=2''))"
  by (simp_all add: order_example_parameters)

text \<open>The theorem on \<open>?a=1&b=2\<close> and \<open>?b=2&a=1\<close>.\<close>

theorem query_order_does_not_matter_witness:
  "queryParameters ''http://h/a/p.png?a=1&b=2'' = [(''a'', ''1''), (''b'', ''2'')]
   \<and> queryParameters ''http://h/a/p.png?b=2&a=1'' = [(''b'', ''2''), (''a'', ''1'')]
   \<and> generateCacheKey ''http://h/a/p.png?a=1&b=2'' (JBool True) =
       generateCacheKey ''http://h/a/p.png?b=2&a=1'' (JBool True)
   \<and> generateCacheKey ''http://h/a/p.png?a=1&b=2'' (JArr [JStr ''b'', JStr ''a'']) =
       generateCacheKey ''http://h/a/p.png?b=2&a=1'' (JArr [JStr ''b'', JStr ''a''])
   \<and> getImageRelativeFilePath ''http://h/a/p.png?a=1&b=2'' =
       getImageRelativeFilePath ''http://h/a/p.png?b=2&a=1''"
  using query_order_does_not_matter [OF order_example_hyps(1-4) order_example_mset, of "JBool True"]
    query_order_does_not_matter
      [OF order_example_hyps(1-4) order_example_mset, of "JArr [JStr ''b'', JStr ''a'']"]
    order_example_parameters
  by simp

lemma sha1_dup_2: "SHA1 ''/ap.pngpng2'' = ''cc30456f24ce52bb4a97357e25f0d47d1a4dbae1''"
  by (simp add: sha1_eval)

lemma sha1_dup_1: "SHA1 ''/ap.pngpng1'' = ''a867ea61ba78257fecb60511ff811aeb50a8023a''"
  by (simp add: sha1_eval)

lemma locals_dup:
  "generateCacheKey_locals ''http://h/a/p.png?a=1&a=2'' JUndefined = (''/ap.pngpng2'', ''png'')"
  "generateCacheKey_locals ''http://h/a/p.png?a=2&a=1'' JUndefined = (''/ap.pngpng1'', ''png'')"
  "generateCacheKey_locals ''http://h/a/p.png?a=1&a=2'' (JBool True) = (''/ap.pngpng2'', ''png'')"
  "generateCacheKey_locals ''http://h/a/p.png?a=2&a=1'' (JBool True) = (''/ap.pngpng1'', ''png'')"
  by code_simp+

lemma dup_example:
  "isCacheable (JStr ''http://h/a/p.png?a=1&a=2'')"
  "isCacheable (JStr ''http://h/a/p.png?a=2&a=1'')"
  "\<not> js_includes ''http://h/a/p.png?a=1&a=2'' ''cgi-bin/math.cgi?''"
  "\<not> js_includes ''http://h/a/p.png?a=2&a=1'' ''cgi-bin/math.cgi?''"
  "host (URL ''http://h/a/p.png?a=1&a=2'') = ''h''"
  "host (URL ''http://h/a/p.png?a=2&a=1'') = ''h''"
  "pathname (URL ''http://h/a/p.png?a=1&a=2'') = pathname (URL ''http://h/a/p.png?a=2&a=1'')"
  "queryParameters ''http://h/a/p.png?a=1&a=2'' = [(''a'', ''1''), (''a'', ''2'')]"
  "queryParameters ''http://h/a/p.png?a=2&a=1'' = [(''a'', ''2''), (''a'', ''1'')]"
  by code_simp+

text \<open>
  C7, as the claim states it, fails where a parameter name is repeated. The URLs
  \<open>http://h/a/p.png?a=1&a=2\<close> and \<open>http://h/a/p.png?a=2&a=1\<close> are cacheable, carry
  no formula marker, and differ only in the order of their two parameters; the query object
  keeps the value assigned last, so the hashed strings are \<open>/ap.pngpng2\<close> and
  \<open>/ap.pngpng1\<close>, and the keys and the relative paths differ.
\<close>

theorem repeated_parameter_name_order_matters:
  "isCacheable (JStr ''http://h/a/p.png?a=1&a=2'')
   \<and> isCacheable (JStr ''http://h/a/p.png?a=2&a=1'')
   \<and> \<not> js_includes ''http://h/a/p.png?a=1&a=2'' ''cgi-bin/math.cgi?''
   \<and> \<not> js_includes ''http://h/a/p.png?a=2&a=1'' ''cgi-bin/math.cgi?''
   \<and> host (URL ''http://h/a/p.png?a=1&a=2'') = host (URL ''http://h/a/p.png?a=2&a=1'')
   \<and> pathname (URL ''http://h/a/p.png?a=1&a=2'') = pathname (URL ''http://h/a/p.png?a=2&a=1'')
   \<and> queryParameters ''http://h/a/p.png?a=1&a=2'' = [(''a'', ''1''), (''a'', ''2'')]
   \<and> queryParameters ''http://h/a/p.png?a=2&a=1'' = [(''a'', ''2''), (''a'', ''1'')]
   \<and> mset (queryParameters ''http://h/a/p.png?a=1&a=2'') =
       mset (queryParameters ''http://h/a/p.png?a=2&a=1'')
   \<and> generateCacheKey ''http://h/a/p.png?a=1&a=2'' (JBool True) \<noteq>
       generateCacheKey ''http://h/a/p.png?a=2&a=1'' (JBool True)
   \<and> getImageRelativeFilePath ''http://h/a/p.png?a=1&a=2'' \<noteq>
       getImageRelativeFilePath ''http://h/a/p.png?a=2&a=1''"
proof -
  have k: "generateCacheKey ''http://h/a/p.png?a=1&a=2'' p \<noteq>
           generateCacheKey ''http://h/a/p.png?a=2&a=1'' p"
    if "p = JUndefined \<or> p = JBool True" for p
    using that by (auto simp: generateCacheKey_def locals_dup sha1_dup_1 sha1_dup_2)
  have r: "getImageRelativeFilePath ''http://h/a/p.png?a=1&a=2'' \<noteq>
           getImageRelativeFilePath ''http://h/a/p.png?a=2&a=1''"
    using k [of JUndefined]
    by (simp add: getImageRelativeFilePath_def getHostCachePathComponent_def Let_def dup_example(5,6))
  show ?thesis
    using k [of "JBool True"] r dup_example by simp
qed

section \<open>The options objects\<close>

lemma defaults_idem: "defaults (defaults a b) b = defaults a b"
  by (rule ext) (auto simp: defaults_def getProp_def split: option.splits)

lemma defaults_self: "defaults a a = a"
  by (rule ext) (auto simp: defaults_def getProp_def split: option.splits)

lemma heap_lodash_defaults_source: "heap (lodash_defaults ob src w) src = heap w src"
  by (simp add: lodash_defaults_def defaults_self)

lemma heap_lodash_defaults:
  "heap (lodash_defaults ob src w) = (heap w)(ob := defaults (heap w ob) (heap w src))"
  by (simp add: lodash_defaults_def)

lemma lodash_defaults_fixed:
  assumes "heap w1 = heap (lodash_defaults ob src w)"
  shows "lodash_defaults ob src w1 = w1"
proof -
  have "heap w1 ob = defaults (heap w ob) (heap w src)"
    using assms by (simp add: lodash_defaults_def)
  moreover have "heap w1 src = heap w src"
    using assms by (simp add: heap_lodash_defaults_source)
  ultimately have "defaults (heap w1 ob) (heap w1 src) = heap w1 ob"
    by (simp add: defaults_idem)
  then show ?thesis
    by (simp add: lodash_defaults_def)
qed

lemmas collaborator_defs =
  urlCache_get_def urlCache_set_def urlCache_remove_def urlCache_flush_def fs_exists_def
  fs_deleteFile_def fs_downloadFile_def fs_copyFile_def fs_cleanDir_def fs_getDirInfo_def emit_def

lemma heap_cacheUrl_then [simp]: "heap (snd (cacheUrl_then ob c w)) = heap w"
  by (simp add: cacheUrl_then_def collaborator_defs Let_def split: option.splits)

lemma cacheUrl_cacheable:
  "isCacheable url \<Longrightarrow>
   cacheUrl d url ob g (l, w) =
     (case cacheUrl_then ob
             (getCacheableUrl (js_toString url)
                (getProp (heap (lodash_defaults ob d w) ob) ''useQueryParamsInCacheKey''))
             (lodash_defaults ob d w) of
        (Some cachedFilePath, w3) \<Rightarrow> (Resolved cachedFilePath, l, w3)
      | (None, w3) \<Rightarrow>
          cacheUrl_catch ob
            (getCacheableUrl (js_toString url)
               (getProp (heap (lodash_defaults ob d w) ob) ''useQueryParamsInCacheKey''))
            g (l, w3))"
  by (simp add: cacheUrl_def Let_def)

lemma heap_cacheUrl_catch:
  assumes g: "\<And>fp l w. heap (snd (snd (g fp (l, w)))) = heap w"
  shows "heap (snd (snd (cacheUrl_catch ob c g (l, w)))) = heap w"
proof -
  let ?fp = "js_toString (getProp (heap w ob) ''cacheLocation'') @ ''/'' @ getImageRelativeFilePath c"
  obtain r5 l5 w5 where g5: "g ?fp (l, fs_deleteFile ?fp w) = (r5, l5, w5)"
    by (cases "g ?fp (l, fs_deleteFile ?fp w)")
  have "heap w5 = heap (fs_deleteFile ?fp w)"
    using g [of ?fp l "fs_deleteFile ?fp w"] g5 by simp
  then have "heap w5 = heap w"
    by (simp add: collaborator_defs)
  then show ?thesis
    using g5 by (cases r5) (simp_all add: cacheUrl_catch_def Let_def collaborator_defs)
qed

lemma heap_cacheUrl:
  assumes g: "\<And>fp l w. heap (snd (snd (g fp (l, w)))) = heap w"
  shows "heap (snd (snd (cacheUrl d url ob g (l, w)))) =
           (if isCacheable url then (heap w)(ob := defaults (heap w ob) (heap w d)) else heap w)"
proof (cases "isCacheable url")
  case False
  then show ?thesis by (simp add: cacheUrl_def)
next
  case True
  let ?w1 = "lodash_defaults ob d w"
  let ?c = "getCacheableUrl (js_toString url) (getProp (heap ?w1 ob) ''useQueryParamsInCacheKey'')"
  obtain r w3 where t: "cacheUrl_then ob ?c ?w1 = (r, w3)"
    by (cases "cacheUrl_then ob ?c ?w1")
  have h3: "heap w3 = heap ?w1"
    using heap_cacheUrl_then [of ob ?c ?w1] t by simp
  have "heap (snd (snd (cacheUrl d url ob g (l, w)))) = heap ?w1"
  proof (cases r)
    case (Some p)
    then show ?thesis
      unfolding cacheUrl_cacheable [OF True] t using h3 by simp
  next
    case None
    then show ?thesis
      unfolding cacheUrl_cacheable [OF True] t using h3 heap_cacheUrl_catch [of g ob ?c l w3, OF g]
      by simp
  qed
  then show ?thesis
    using True by (simp add: heap_lodash_defaults)
qed

lemma heap_isCachedURL:
  "heap (snd (isCachedURL d url ob w)) =
     (if isCacheable url then (heap w)(ob := defaults (heap w ob) (heap w d)) else heap w)"
proof -
  let ?g = "\<lambda>filePath (noCached :: bool, w' :: world). (Resolved (), True, w')"
  have "heap (snd (snd (cacheUrl d url ob ?g (False, w)))) =
     (if isCacheable url then (heap w)(ob := defaults (heap w ob) (heap w d)) else heap w)"
    by (rule heap_cacheUrl) simp
  then show ?thesis
    by (auto simp: isCachedURL_def split: prod.splits promise.splits)
qed

lemma heap_downloadAndCacheUrl:
  "heap (snd (downloadAndCacheUrl d url ob w)) =
     (if isCacheable url then (heap w)(ob := defaults (heap w ob) (heap w d)) else heap w)"
proof -
  let ?g = "\<lambda>filePath (u :: unit, w').
                case fs_downloadFile (js_toString url) filePath (getProp (heap w' ob) ''headers'') w' of
                  (r, w'') \<Rightarrow> (r, u, w'')"
  have "heap (snd (snd (cacheUrl d url ob ?g ((), w)))) =
     (if isCacheable url then (heap w)(ob := defaults (heap w ob) (heap w d)) else heap w)"
    by (rule heap_cacheUrl) (simp add: collaborator_defs split: fetch_outcome.splits)
  then show ?thesis
    by (auto simp: downloadAndCacheUrl_def split: prod.splits)
qed

lemma heap_seedAndCacheUrl:
  "heap (snd (seedAndCacheUrl d url seedPath ob w)) =
     (if isCacheable url then (heap w)(ob := defaults (heap w ob) (heap w d)) else heap w)"
proof -
  let ?g = "\<lambda>filePath (u :: unit, w'). case fs_copyFile seedPath filePath w' of (r, w'') \<Rightarrow> (r, u, w'')"
  have "heap (snd (snd (cacheUrl d url ob ?g ((), w)))) =
     (if isCacheable url then (heap w)(ob := defaults (heap w ob) (heap w d)) else heap w)"
    by (rule heap_cacheUrl) (simp add: collaborator_defs)
  then show ?thesis
    by (auto simp: seedAndCacheUrl_def split: prod.splits)
qed

lemma heap_deleteUrl:
  "heap (snd (deleteUrl d url ob w)) =
     (if isCacheable url then (heap w)(ob := defaults (heap w ob) (heap w d)) else heap w)"
  by (simp add: deleteUrl_def Let_def heap_lodash_defaults collaborator_defs)

lemma heap_clearCache:
  "heap (snd (clearCache d ob w)) = (heap w)(ob := defaults (heap w ob) (heap w d))"
  by (simp add: clearCache_def Let_def heap_lodash_defaults collaborator_defs)

lemma heap_getCacheInfo:
  "heap (snd (getCacheInfo d ob w)) = (heap w)(ob := defaults (heap w ob) (heap w d))"
  by (simp add: getCacheInfo_def Let_def heap_lodash_defaults collaborator_defs)

lemma merged_heap_keeps_defaults: "((heap w)(ob := defaults (heap w ob) (heap w d))) d = heap w d"
  by (simp add: defaults_self)

section \<open>Hit and miss\<close>

lemma cacheUrl_then_eq:
  "cacheUrl_then ob c w =
     (case urlCache w c of
        None \<Rightarrow> (None, emit (CacheGet c) w)
      | Some (rel, t) \<Rightarrow>
          if rel = [] then (None, emit (CacheGet c) w)
          else if js_toString (getProp (heap w ob) ''cacheLocation'') @ ''/'' @ rel \<in> files w
          then (Some (js_toString (getProp (heap w ob) ''cacheLocation'') @ ''/'' @ rel),
                emit (FsExists (js_toString (getProp (heap w ob) ''cacheLocation'') @ ''/'' @ rel))
                  (emit (CacheGet c) w))
          else (None,
                emit (FsExists (js_toString (getProp (heap w ob) ''cacheLocation'') @ ''/'' @ rel))
                  (emit (CacheGet c) w)))"
  by (simp add: cacheUrl_then_def urlCache_get_def fs_exists_def emit_def Let_def
      split: option.splits prod.splits)

lemma cacheUrl_hit:
  assumes "isCacheable url"
    and "opts = defaults (heap w ob) (heap w d)"
    and "c = getCacheableUrl (js_toString url) (getProp opts ''useQueryParamsInCacheKey'')"
    and "loc = js_toString (getProp opts ''cacheLocation'')"
    and "urlCache w c = Some (r, t)" and "r \<noteq> []" and "loc @ ''/'' @ r \<in> files w"
  shows "cacheUrl d url ob g (l, w) =
           (Resolved (loc @ ''/'' @ r), l,
            emit (FsExists (loc @ ''/'' @ r)) (emit (CacheGet c) (lodash_defaults ob d w)))"
  using assms
  by (simp add: cacheUrl_cacheable cacheUrl_then_eq heap_lodash_defaults)
     (simp add: lodash_defaults_def)

lemma cacheUrl_miss:
  assumes "isCacheable url"
    and "opts = defaults (heap w ob) (heap w d)"
    and "c = getCacheableUrl (js_toString url) (getProp opts ''useQueryParamsInCacheKey'')"
    and "loc = js_toString (getProp opts ''cacheLocation'')"
    and "\<forall>r t. urlCache w c = Some (r, t) \<longrightarrow> r = [] \<or> loc @ ''/'' @ r \<notin> files w"
  shows "cacheUrl d url ob g (l, w) =
           cacheUrl_catch ob c g
             (l, case urlCache w c of
                   None \<Rightarrow> emit (CacheGet c) (lodash_defaults ob d w)
                 | Some (r, t) \<Rightarrow>
                     if r = [] then emit (CacheGet c) (lodash_defaults ob d w)
                     else emit (FsExists (loc @ ''/'' @ r)) (emit (CacheGet c) (lodash_defaults ob d w)))"
proof (cases "urlCache w c")
  case None
  then show ?thesis
    using assms(1-4)
    by (simp add: cacheUrl_cacheable cacheUrl_then_eq heap_lodash_defaults)
       (simp add: lodash_defaults_def)
next
  case (Some rt)
  obtain r t where rt: "rt = (r, t)" by (cases rt)
  have "r = [] \<or> loc @ ''/'' @ r \<notin> files w"
    using assms(5) Some rt by simp
  then show ?thesis
    using assms(1-4) Some rt
    by (auto simp: cacheUrl_cacheable cacheUrl_then_eq heap_lodash_defaults lodash_defaults_def)
qed

lemma cacheUrl_miss_world:
  "(case urlCache w c of
      None \<Rightarrow> emit (CacheGet c) w1
    | Some (r, t) \<Rightarrow>
        if r = [] then emit (CacheGet c) w1
        else emit (FsExists (loc @ ''/'' @ r)) (emit (CacheGet c) w1))
   = w1\<lparr>trace := trace w1 @ lookupCalls w c loc\<rparr>"
  by (simp add: lookupCalls_def emit_def split: option.splits prod.splits)

lemma lodash_defaults_fields [simp]:
  "urlCache (lodash_defaults ob d w) = urlCache w"
  "files (lodash_defaults ob d w) = files w"
  "network (lodash_defaults ob d w) = network w"
  "trace (lodash_defaults ob d w) = trace w"
  "cacheDir (lodash_defaults ob d w) = cacheDir w"
  by (simp_all add: lodash_defaults_def)

lemma isCachedURL_miss:
  assumes "isCacheable url"
    and "opts = defaults (heap w ob) (heap w d)"
    and "c = getCacheableUrl (js_toString url) (getProp opts ''useQueryParamsInCacheKey'')"
    and "loc = js_toString (getProp opts ''cacheLocation'')"
    and "\<forall>r t. urlCache w c = Some (r, t) \<longrightarrow> r = [] \<or> loc @ ''/'' @ r \<notin> files w"
  shows "isCachedURL d url ob w =
     (Resolved False,
      (lodash_defaults ob d w)
        \<lparr>urlCache := (urlCache w)(c \<mapsto> (getImageRelativeFilePath c, getProp opts ''ttl'')),
         files := files w - {loc @ ''/'' @ getImageRelativeFilePath c},
         trace := trace w @ lookupCalls w c loc @
                  [FsDeleteFile (loc @ ''/'' @ getImageRelativeFilePath c),
                   CacheSet c (getImageRelativeFilePath c) (getProp opts ''ttl'')]\<rparr>)"
  unfolding isCachedURL_def cacheUrl_miss [OF assms] cacheUrl_miss_world
  using assms(2,4)
  by (simp add: cacheUrl_catch_def Let_def heap_lodash_defaults collaborator_defs)

lemma downloadAndCacheUrl_miss:
  assumes "isCacheable url"
    and "opts = defaults (heap w ob) (heap w d)"
    and "c = getCacheableUrl (js_toString url) (getProp opts ''useQueryParamsInCacheKey'')"
    and "loc = js_toString (getProp opts ''cacheLocation'')"
    and "\<forall>r t. urlCache w c = Some (r, t) \<longrightarrow> r = [] \<or> loc @ ''/'' @ r \<notin> files w"
  shows "downloadAndCacheUrl d url ob w =
     (case network w (js_toString url) of
        Fetched \<Rightarrow>
          (Resolved (loc @ ''/'' @ getImageRelativeFilePath c),
           (lodash_defaults ob d w)
             \<lparr>urlCache := (urlCache w)(c \<mapsto> (getImageRelativeFilePath c, getProp opts ''ttl'')),
              files := insert (loc @ ''/'' @ getImageRelativeFilePath c) (files w),
              trace := trace w @ lookupCalls w c loc @
                  [FsDeleteFile (loc @ ''/'' @ getImageRelativeFilePath c),
                   FsDownloadFile (js_toString url) (loc @ ''/'' @ getImageRelativeFilePath c)
                     (getProp opts ''headers''),
                   CacheSet c (getImageRelativeFilePath c) (getProp opts ''ttl'')]\<rparr>)
      | FetchFailed e partial \<Rightarrow>
          (Rejected e,
           (lodash_defaults ob d w)
             \<lparr>files := (if partial then insert (loc @ ''/'' @ getImageRelativeFilePath c) (files w)
                        else files w - {loc @ ''/'' @ getImageRelativeFilePath c}),
              trace := trace w @ lookupCalls w c loc @
                  [FsDeleteFile (loc @ ''/'' @ getImageRelativeFilePath c),
                   FsDownloadFile (js_toString url) (loc @ ''/'' @ getImageRelativeFilePath c)
                     (getProp opts ''headers'')]\<rparr>))"
  unfolding downloadAndCacheUrl_def cacheUrl_miss [OF assms] cacheUrl_miss_world
  using assms(2,4)
  by (simp add: cacheUrl_catch_def Let_def heap_lodash_defaults collaborator_defs
      split: fetch_outcome.splits)

lemma seedAndCacheUrl_miss:
  assumes "isCacheable url"
    and "opts = defaults (heap w ob) (heap w d)"
    and "c = getCacheableUrl (js_toString url) (getProp opts ''useQueryParamsInCacheKey'')"
    and "loc = js_toString (getProp opts ''cacheLocation'')"
    and "\<forall>r t. urlCache w c = Some (r, t) \<longrightarrow> r = [] \<or> loc @ ''/'' @ r \<notin> files w"
  shows "seedAndCacheUrl d url seedPath ob w =
     (if seedPath \<in> files w - {loc @ ''/'' @ getImageRelativeFilePath c}
      then
          (Resolved (loc @ ''/'' @ getImageRelativeFilePath c),
           (lodash_defaults ob d w)
             \<lparr>urlCache := (urlCache w)(c \<mapsto> (getImageRelativeFilePath c, getProp opts ''ttl'')),
              files := insert (loc @ ''/'' @ getImageRelativeFilePath c) (files w),
              trace := trace w @ lookupCalls w c loc @
                  [FsDeleteFile (loc @ ''/'' @ getImageRelativeFilePath c),
                   FsCopyFile seedPath (loc @ ''/'' @ getImageRelativeFilePath c),
                   CacheSet c (getImageRelativeFilePath c) (getProp opts ''ttl'')]\<rparr>)
      else
          (Rejected (Error ''source file does not exist''),
           (lodash_defaults ob d w)
             \<lparr>files := files w - {loc @ ''/'' @ getImageRelativeFilePath c},
              trace := trace w @ lookupCalls w c loc @
                  [FsDeleteFile (loc @ ''/'' @ getImageRelativeFilePath c),
                   FsCopyFile seedPath (loc @ ''/'' @ getImageRelativeFilePath c)]\<rparr>))"
  unfolding seedAndCacheUrl_def cacheUrl_miss [OF assms] cacheUrl_miss_world
  using assms(2,4)
  by (simp add: cacheUrl_catch_def Let_def heap_lodash_defaults collaborator_defs)

lemma downloadAndCacheUrl_hit:
  assumes "isCacheable url"
    and "opts = defaults (heap w ob) (heap w d)"
    and "c = getCacheableUrl (js_toString url) (getProp opts ''useQueryParamsInCacheKey'')"
    and "loc = js_toString (getProp opts ''cacheLocation'')"
    and "urlCache w c = Some (r, t)" and "r \<noteq> []" and "loc @ ''/'' @ r \<in> files w"
  shows "downloadAndCacheUrl d url ob w =
           (Resolved (loc @ ''/'' @ r),
            emit (FsExists (loc @ ''/'' @ r)) (emit (CacheGet c) (lodash_defaults ob d w)))"
  unfolding downloadAndCacheUrl_def cacheUrl_hit [OF assms] by simp

lemma isCachedURL_hit:
  assumes "isCacheable url"
    and "opts = defaults (heap w ob) (heap w d)"
    and "c = getCacheableUrl (js_toString url) (getProp opts ''useQueryParamsInCacheKey'')"
    and "loc = js_toString (getProp opts ''cacheLocation'')"
    and "urlCache w c = Some (r, t)" and "r \<noteq> []" and "loc @ ''/'' @ r \<in> files w"
  shows "isCachedURL d url ob w =
           (Resolved True,
            emit (FsExists (loc @ ''/'' @ r)) (emit (CacheGet c) (lodash_defaults ob d w)))"
  unfolding isCachedURL_def cacheUrl_hit [OF assms] by simp

section \<open>Inputs that are not cacheable\<close>

lemma map_lower_eq_iff:
  "map lower_char xs = map lower_char ys \<longleftrightarrow>
     length xs = length ys \<and> list_all2 (\<lambda>a b. lower_char a = lower_char b) xs ys"
proof (induction xs arbitrary: ys)
  case Nil
  then show ?case by auto
next
  case (Cons x xs)
  then show ?case by (cases ys) auto
qed

lemma startsWith_lower_iff:
  assumes "map lower_char p = p"
  shows "startsWith (toLowerCase s) p = startsWithIgnoringCase s p"
proof -
  have "take (length p) (map lower_char s) = p \<longleftrightarrow>
        map lower_char (take (length p) s) = map lower_char p"
    using assms by (simp add: take_map)
  also have "\<dots> \<longleftrightarrow> length (take (length p) s) = length p
        \<and> list_all2 (\<lambda>a b. lower_char a = lower_char b) (take (length p) s) p"
    by (rule map_lower_eq_iff)
  also have "\<dots> \<longleftrightarrow> startsWithIgnoringCase s p"
    by (auto simp: startsWithIgnoringCase_def min_def)
  finally show ?thesis
    by (simp add: startsWith_def toLowerCase_def)
qed

lemma http_lower: "map lower_char ''http://'' = ''http://''" "map lower_char ''https://'' = ''https://''"
  by code_simp+

lemma isCacheable_iff:
  "isCacheable url \<longleftrightarrow>
     (\<exists>s. url = JStr s \<and> (startsWithIgnoringCase s ''http://'' \<or> startsWithIgnoringCase s ''https://''))"
  by (cases url)
    (simp_all add: isCacheable_def startsWith_lower_iff [OF http_lower(1)]
      startsWith_lower_iff [OF http_lower(2)])

text \<open>
  C8. Let \<open>url\<close> be any value that is not a string starting, case-insensitively, with
  \<open>http://\<close> or \<open>https://\<close>; numbers and \<open>null\<close> are such values. Then
  \<open>isCachedURL\<close>, \<open>downloadAndCacheUrl\<close>, \<open>seedAndCacheUrl\<close> and \<open>deleteUrl\<close>
  reject with the error "Url is not cacheable" and leave the world as it was: no call to the
  record store or the file system, no download, no write to an options object. And
  \<open>isURLCacheable\<close> returns false.
\<close>

theorem not_cacheable_rejects_without_io:
  assumes "\<forall>s. url = JStr s \<longrightarrow>
             \<not> startsWithIgnoringCase s ''http://'' \<and> \<not> startsWithIgnoringCase s ''https://''"
  shows "isCachedURL d url ob w = (Rejected (Error ''Url is not cacheable''), w)
       \<and> downloadAndCacheUrl d url ob w = (Rejected (Error ''Url is not cacheable''), w)
       \<and> seedAndCacheUrl d url seedPath ob w = (Rejected (Error ''Url is not cacheable''), w)
       \<and> deleteUrl d url ob w = (Rejected (Error ''Url is not cacheable''), w)
       \<and> isURLCacheable url = False"
proof -
  have "\<not> isCacheable url"
    using assms by (auto simp: isCacheable_iff)
  then show ?thesis
    by (simp add: isCachedURL_def downloadAndCacheUrl_def seedAndCacheUrl_def deleteUrl_def
        isURLCacheable_def cacheUrl_def)
qed

lemma ftp_not_http:
  "\<not> startsWithIgnoringCase ''ftp://x'' ''http://''"
  "\<not> startsWithIgnoringCase ''ftp://x'' ''https://''"
  by code_simp+

text \<open>The theorem on \<open>"ftp://x"\<close>, \<open>42\<close> and \<open>null\<close>.\<close>

theorem not_cacheable_rejects_without_io_witness:
  "\<not> startsWithIgnoringCase ''ftp://x'' ''http://''
   \<and> \<not> startsWithIgnoringCase ''ftp://x'' ''https://''
   \<and> downloadAndCacheUrl 0 (JStr ''ftp://x'') 1 readyWorld =
       (Rejected (Error ''Url is not cacheable''), readyWorld)
   \<and> isCachedURL 0 (JNum 42) 1 readyWorld = (Rejected (Error ''Url is not cacheable''), readyWorld)
   \<and> seedAndCacheUrl 0 JNull ''/seed.png'' 1 readyWorld =
       (Rejected (Error ''Url is not cacheable''), readyWorld)
   \<and> deleteUrl 0 JNull 1 readyWorld = (Rejected (Error ''Url is not cacheable''), readyWorld)
   \<and> isURLCacheable (JStr ''ftp://x'') = False
   \<and> isURLCacheable (JNum 42) = False
   \<and> isURLCacheable JNull = False"
  using not_cacheable_rejects_without_io [of "JStr ''ftp://x''" 0 1 readyWorld "''/seed.png''"]
    not_cacheable_rejects_without_io [of "JNum 42" 0 1 readyWorld "''/seed.png''"]
    not_cacheable_rejects_without_io [of JNull 0 1 readyWorld "''/seed.png''"]
    ftp_not_http
  by simp

text \<open>
  C9, as the code has it. A call of a public operation never writes the default options
  object. It writes the caller's options object in place: every property of the defaults
  that is \<open>undefined\<close> in the caller's object is assigned to it, and the values the caller
  supplied are kept; no copy is made. The operations that take a URL do so only when the
  URL is cacheable.
\<close>

theorem options_are_merged_in_place:
  "heap (snd (isCachedURL d url ob w)) =
     (if isCacheable url then (heap w)(ob := defaults (heap w ob) (heap w d)) else heap w)
   \<and> heap (snd (downloadAndCacheUrl d url ob w)) =
     (if isCacheable url then (heap w)(ob := defaults (heap w ob) (heap w d)) else heap w)
   \<and> heap (snd (seedAndCacheUrl d url seedPath ob w)) =
     (if isCacheable url then (heap w)(ob := defaults (heap w ob) (heap w d)) else heap w)
   \<and> heap (snd (deleteUrl d url ob w)) =
     (if isCacheable url then (heap w)(ob := defaults (heap w ob) (heap w d)) else heap w)
   \<and> heap (snd (clearCache d ob w)) = (heap w)(ob := defaults (heap w ob) (heap w d))
   \<and> heap (snd (getCacheInfo d ob w)) = (heap w)(ob := defaults (heap w ob) (heap w d))
   \<and> heap (snd (isCachedURL d url ob w)) d = heap w d
   \<and> heap (snd (downloadAndCacheUrl d url ob w)) d = heap w d
   \<and> heap (snd (seedAndCacheUrl d url seedPath ob w)) d = heap w d
   \<and> heap (snd (deleteUrl d url ob w)) d = heap w d
   \<and> heap (snd (clearCache d ob w)) d = heap w d
   \<and> heap (snd (getCacheInfo d ob w)) d = heap w d"
  by (simp add: heap_isCachedURL heap_downloadAndCacheUrl heap_seedAndCacheUrl heap_deleteUrl
      heap_clearCache heap_getCacheInfo defaults_self)

lemma defaults_empty: "defaults Map.empty s = s"
  by (rule ext) (simp add: defaults_def getProp_def)

lemma readyWorld_fields:
  "heap readyWorld 0 = defaultDefaultOptions emptyWorld"
  "heap readyWorld (Suc 0) = Map.empty"
  "urlCache readyWorld = Map.empty"
  "files readyWorld = {}"
  "trace readyWorld = []"
  "network readyWorld = (\<lambda>u. Fetched)"
  by (simp_all add: readyWorld_def ImageCacheManager_def emptyWorld_def defaults_empty)

lemma readyWorld_options:
  "defaults (heap readyWorld (Suc 0)) (heap readyWorld 0) = defaultDefaultOptions emptyWorld"
  by (simp add: readyWorld_fields defaults_empty)

lemma example_options:
  "getProp (defaultDefaultOptions emptyWorld) ''useQueryParamsInCacheKey'' = JBool False"
  "getProp (defaultDefaultOptions emptyWorld) ''cacheLocation'' = JStr ''/cache''"
  "getProp (defaultDefaultOptions emptyWorld) ''ttl'' = JNum 1209600"
  "getProp (defaultDefaultOptions emptyWorld) ''headers'' = JObj []"
  by (simp_all add: defaultDefaultOptions_def getProp_def emptyWorld_def)

text \<open>
  C9, as the claim states it, fails: after a download with an empty options object, that
  object is no longer what it was; its \<open>ttl\<close>, undefined before, is the default.
\<close>

theorem caller_options_are_mutated:
  "heap (snd (downloadAndCacheUrl 0 (JStr ''http://example.com/a/b/pic.PNG'') 1 readyWorld)) 1
     \<noteq> heap readyWorld 1
   \<and> getProp (heap readyWorld 1) ''ttl'' = JUndefined
   \<and> getProp (heap (snd (downloadAndCacheUrl 0 (JStr ''http://example.com/a/b/pic.PNG'') 1
        readyWorld)) 1) ''ttl'' = JNum 1209600"
proof -
  have c: "isCacheable (JStr ''http://example.com/a/b/pic.PNG'')"
    by code_simp
  have h: "heap (snd (downloadAndCacheUrl 0 (JStr ''http://example.com/a/b/pic.PNG'') 1 readyWorld)) 1
        = defaultDefaultOptions emptyWorld"
    using c by (simp add: heap_downloadAndCacheUrl readyWorld_options)
  have u: "getProp (heap readyWorld 1) ''ttl'' = JUndefined"
    by (simp add: readyWorld_fields getProp_def)
  have "heap (snd (downloadAndCacheUrl 0 (JStr ''http://example.com/a/b/pic.PNG'') 1 readyWorld)) 1
     \<noteq> heap readyWorld 1"
    using u example_options(3) unfolding h by auto
  then show ?thesis
    using u example_options(3) unfolding h by simp
qed

section \<open>The cache protocol\<close>

lemma getImageRelativeFilePath_nonempty: "getImageRelativeFilePath u \<noteq> []"
  by (simp add: getImageRelativeFilePath_def Let_def)

text \<open>
  C5. Let the lookup of a cacheable URL miss: the store has no entry for the canonical URL,
  or the entry's path is empty or names no existing file. Then \<open>isCachedURL\<close> resolves
  with false, and it is not read-only: it deletes the file at the derived path and writes a
  record from the canonical URL to the derived relative path with the time to live of the
  options. No file is created, so the record points at a file that does not exist.
\<close>

theorem probe_on_miss_writes_a_record:
  assumes "isCacheable url"
    and "opts = defaults (heap w ob) (heap w d)"
    and "c = getCacheableUrl (js_toString url) (getProp opts ''useQueryParamsInCacheKey'')"
    and "loc = js_toString (getProp opts ''cacheLocation'')"
    and "\<forall>r t. urlCache w c = Some (r, t) \<longrightarrow> r = [] \<or> loc @ ''/'' @ r \<notin> files w"
    and "rel = getImageRelativeFilePath c"
  shows "fst (isCachedURL d url ob w) = Resolved False
       \<and> urlCache (snd (isCachedURL d url ob w)) = (urlCache w)(c \<mapsto> (rel, getProp opts ''ttl''))
       \<and> files (snd (isCachedURL d url ob w)) = files w - {loc @ ''/'' @ rel}
       \<and> loc @ ''/'' @ rel \<notin> files (snd (isCachedURL d url ob w))
       \<and> trace (snd (isCachedURL d url ob w)) =
           trace w @ lookupCalls w c loc @
           [FsDeleteFile (loc @ ''/'' @ rel), CacheSet c rel (getProp opts ''ttl'')]"
  unfolding isCachedURL_miss [OF assms(1-5)] assms(6) by simp

text \<open>
  C4. Let the lookup of a cacheable URL miss, so that the materialize step is run. If the
  download fails with an error, \<open>downloadAndCacheUrl\<close> rejects with that error; if the
  seed file does not exist, \<open>seedAndCacheUrl\<close> rejects with the error of the copy. In both
  cases the record store is as it was, and the calls made end with the failed step:
  \<open>urlCache.set\<close> is not called.
\<close>

theorem materialize_failure_writes_no_record:
  assumes "isCacheable url"
    and "opts = defaults (heap w ob) (heap w d)"
    and "c = getCacheableUrl (js_toString url) (getProp opts ''useQueryParamsInCacheKey'')"
    and "loc = js_toString (getProp opts ''cacheLocation'')"
    and "\<forall>r t. urlCache w c = Some (r, t) \<longrightarrow> r = [] \<or> loc @ ''/'' @ r \<notin> files w"
    and "filePath = loc @ ''/'' @ getImageRelativeFilePath c"
  shows "(network w (js_toString url) = FetchFailed e partial \<longrightarrow>
            fst (downloadAndCacheUrl d url ob w) = Rejected e
          \<and> urlCache (snd (downloadAndCacheUrl d url ob w)) = urlCache w
          \<and> trace (snd (downloadAndCacheUrl d url ob w)) =
              trace w @ lookupCalls w c loc @
              [FsDeleteFile filePath,
               FsDownloadFile (js_toString url) filePath (getProp opts ''headers'')])
       \<and> (seedPath \<notin> files w \<longrightarrow>
            fst (seedAndCacheUrl d url seedPath ob w) = Rejected (Error ''source file does not exist'')
          \<and> urlCache (snd (seedAndCacheUrl d url seedPath ob w)) = urlCache w
          \<and> trace (snd (seedAndCacheUrl d url seedPath ob w)) =
              trace w @ lookupCalls w c loc @ [FsDeleteFile filePath, FsCopyFile seedPath filePath])"
  unfolding downloadAndCacheUrl_miss [OF assms(1-5)] seedAndCacheUrl_miss [OF assms(1-5)] assms(6)
  by simp

text \<open>
  C3. Let the store hold an entry for the canonical URL of a cacheable URL, and let no file
  exist at the cache location joined with the recorded path. Then \<open>isCachedURL\<close> resolves
  with false. And where the download succeeds, \<open>downloadAndCacheUrl\<close> resolves with the
  derived file path: after the lookup it deletes that path, downloads to it and writes a
  fresh record, so that the file exists and the store maps the canonical URL to the derived
  relative path.
\<close>

theorem dangling_record_self_heals:
  assumes "isCacheable url"
    and "opts = defaults (heap w ob) (heap w d)"
    and "c = getCacheableUrl (js_toString url) (getProp opts ''useQueryParamsInCacheKey'')"
    and "loc = js_toString (getProp opts ''cacheLocation'')"
    and "urlCache w c = Some (r0, t0)"
    and "loc @ ''/'' @ r0 \<notin> files w"
    and "rel = getImageRelativeFilePath c"
  shows "fst (isCachedURL d url ob w) = Resolved False
       \<and> (network w (js_toString url) = Fetched \<longrightarrow>
            fst (downloadAndCacheUrl d url ob w) = Resolved (loc @ ''/'' @ rel)
          \<and> urlCache (snd (downloadAndCacheUrl d url ob w)) =
              (urlCache w)(c \<mapsto> (rel, getProp opts ''ttl''))
          \<and> loc @ ''/'' @ rel \<in> files (snd (downloadAndCacheUrl d url ob w))
          \<and> trace (snd (downloadAndCacheUrl d url ob w)) =
              trace w @ lookupCalls w c loc @
              [FsDeleteFile (loc @ ''/'' @ rel),
               FsDownloadFile (js_toString url) (loc @ ''/'' @ rel) (getProp opts ''headers''),
               CacheSet c rel (getProp opts ''ttl'')])"
proof -
  have miss: "\<forall>r t. urlCache w c = Some (r, t) \<longrightarrow> r = [] \<or> loc @ ''/'' @ r \<notin> files w"
    using assms(5,6) by simp
  show ?thesis
    unfolding isCachedURL_miss [OF assms(1-4) miss] downloadAndCacheUrl_miss [OF assms(1-4) miss]
      assms(7)
    by simp
qed

lemma downloadAndCacheUrl_resolved:
  assumes "downloadAndCacheUrl d url ob w = (Resolved p, w1)"
  shows "isCacheable url
       \<and> heap w1 = heap (lodash_defaults ob d w)
       \<and> (\<exists>r t. urlCache w1
              (getCacheableUrl (js_toString url)
                 (getProp (defaults (heap w ob) (heap w d)) ''useQueryParamsInCacheKey'')) = Some (r, t)
            \<and> r \<noteq> []
            \<and> p = js_toString (getProp (defaults (heap w ob) (heap w d)) ''cacheLocation'') @ ''/'' @ r
            \<and> p \<in> files w1)"
proof -
  let ?opts = "defaults (heap w ob) (heap w d)"
  let ?c = "getCacheableUrl (js_toString url) (getProp ?opts ''useQueryParamsInCacheKey'')"
  let ?loc = "js_toString (getProp ?opts ''cacheLocation'')"
  have cacheable: "isCacheable url"
  proof (rule ccontr)
    assume "\<not> isCacheable url"
    then show False
      using assms by (simp add: downloadAndCacheUrl_def cacheUrl_def)
  qed
  show ?thesis
  proof (cases "\<forall>r t. urlCache w ?c = Some (r, t) \<longrightarrow> r = [] \<or> ?loc @ ''/'' @ r \<notin> files w")
    case True
    have eq: "downloadAndCacheUrl d url ob w = (Resolved p, w1)" by (rule assms)
    show ?thesis
      using eq cacheable
      unfolding downloadAndCacheUrl_miss [OF cacheable refl refl refl True]
      by (cases "network w (js_toString url)")
        (auto simp: getImageRelativeFilePath_nonempty)
  next
    case False
    then obtain r t where rt: "urlCache w ?c = Some (r, t)" "r \<noteq> []" "?loc @ ''/'' @ r \<in> files w"
      by auto
    show ?thesis
      using assms cacheable rt
      unfolding downloadAndCacheUrl_hit [OF cacheable refl refl refl rt]
      by (auto simp: emit_def)
  qed
qed

text \<open>
  C1. Let \<open>downloadAndCacheUrl\<close> resolve with a path, leaving the world \<open>w1\<close>. Then in
  \<open>w1\<close>, with the same URL and options object, \<open>isCachedURL\<close> resolves with true and
  \<open>downloadAndCacheUrl\<close> resolves with the same path, and each of them only asks the
  store for the canonical URL and the file system whether the path exists: nothing is
  deleted, downloaded or recorded. (The record store keeps an entry until it is removed:
  no expiry happens between the calls.)
\<close>

theorem fetch_then_probe_and_refetch_hit:
  assumes "downloadAndCacheUrl d url ob w = (Resolved p, w1)"
    and "c = getCacheableUrl (js_toString url) (getProp (heap w1 ob) ''useQueryParamsInCacheKey'')"
  shows "isCachedURL d url ob w1 = (Resolved True, w1\<lparr>trace := trace w1 @ [CacheGet c, FsExists p]\<rparr>)
       \<and> downloadAndCacheUrl d url ob w1 =
           (Resolved p, w1\<lparr>trace := trace w1 @ [CacheGet c, FsExists p]\<rparr>)"
proof -
  let ?opts = "defaults (heap w ob) (heap w d)"
  from downloadAndCacheUrl_resolved [OF assms(1)]
  obtain r t where cacheable: "isCacheable url"
    and h: "heap w1 = heap (lodash_defaults ob d w)"
    and entry: "urlCache w1 (getCacheableUrl (js_toString url)
                 (getProp ?opts ''useQueryParamsInCacheKey'')) = Some (r, t)"
    and r: "r \<noteq> []"
    and p: "p = js_toString (getProp ?opts ''cacheLocation'') @ ''/'' @ r"
    and ex: "p \<in> files w1"
    by blast
  have fixed: "lodash_defaults ob d w1 = w1"
    by (rule lodash_defaults_fixed [OF h])
  have o1: "heap w1 ob = ?opts"
    using h by (simp add: heap_lodash_defaults)
  have opts1: "defaults (heap w1 ob) (heap w1 d) = heap w1 ob"
    using h o1 by (simp add: heap_lodash_defaults_source defaults_idem)
  have c1: "c = getCacheableUrl (js_toString url)
                 (getProp (defaults (heap w1 ob) (heap w1 d)) ''useQueryParamsInCacheKey'')"
    using assms(2) opts1 by simp
  have loc1: "js_toString (getProp ?opts ''cacheLocation'') =
                js_toString (getProp (defaults (heap w1 ob) (heap w1 d)) ''cacheLocation'')"
    using opts1 o1 by simp
  have rec1: "urlCache w1 c = Some (r, t)"
    using entry assms(2) o1 by simp
  have ex1: "js_toString (getProp (defaults (heap w1 ob) (heap w1 d)) ''cacheLocation'') @ ''/'' @ r
               \<in> files w1"
    using ex p loc1 by simp
  show ?thesis
    unfolding isCachedURL_hit [OF cacheable refl c1 refl rec1 r ex1]
      downloadAndCacheUrl_hit [OF cacheable refl c1 refl rec1 r ex1] fixed
    using p loc1 by (simp add: emit_def)
qed

section \<open>The protocol on an example\<close>

lemma example_cacheable: "isCacheable (JStr ''http://example.com/a/b/pic.PNG'')"
  by code_simp

lemma offlineWorld_fields:
  "heap offlineWorld = heap readyWorld"
  "urlCache offlineWorld = Map.empty"
  "files offlineWorld = {}"
  "trace offlineWorld = []"
  "network offlineWorld = (\<lambda>u. FetchFailed (Error ''network down'') False)"
  by (simp_all add: offlineWorld_def readyWorld_fields)

lemma danglingWorld_fields:
  "heap danglingWorld = heap readyWorld"
  "urlCache danglingWorld =
     [getCacheableUrl ''http://example.com/a/b/pic.PNG'' (JBool False) \<mapsto> (''gone/old.png'', JNum 60)]"
  "files danglingWorld = {}"
  "trace danglingWorld = []"
  "network danglingWorld = (\<lambda>u. Fetched)"
  by (simp_all add: danglingWorld_def readyWorld_fields)

lemmas example_simps =
  readyWorld_fields readyWorld_options example_options offlineWorld_fields danglingWorld_fields
  lookupCalls_def defaults_empty

text \<open>A probe of the example URL when nothing is cached.\<close>

theorem probe_on_miss_writes_a_record_witness:
  "isCacheable (JStr ''http://example.com/a/b/pic.PNG'')
   \<and> urlCache readyWorld = Map.empty
   \<and> fst (isCachedURL 0 (JStr ''http://example.com/a/b/pic.PNG'') 1 readyWorld) = Resolved False
   \<and> urlCache (snd (isCachedURL 0 (JStr ''http://example.com/a/b/pic.PNG'') 1 readyWorld))
        (getCacheableUrl ''http://example.com/a/b/pic.PNG'' (JBool False)) =
       Some (getImageRelativeFilePath
               (getCacheableUrl ''http://example.com/a/b/pic.PNG'' (JBool False)), JNum 1209600)
   \<and> ''/cache/'' @ getImageRelativeFilePath
                      (getCacheableUrl ''http://example.com/a/b/pic.PNG'' (JBool False))
       \<notin> files (snd (isCachedURL 0 (JStr ''http://example.com/a/b/pic.PNG'') 1 readyWorld))"
  using probe_on_miss_writes_a_record
    [of "JStr ''http://example.com/a/b/pic.PNG''" _ readyWorld 1 0, OF example_cacheable refl refl refl _ refl]
    example_cacheable
  by (simp add: example_simps)

text \<open>A download without network, and a copy of a seed file that does not exist.\<close>

theorem materialize_failure_writes_no_record_witness:
  "isCacheable (JStr ''http://example.com/a/b/pic.PNG'')
   \<and> network offlineWorld ''http://example.com/a/b/pic.PNG'' = FetchFailed (Error ''network down'') False
   \<and> fst (downloadAndCacheUrl 0 (JStr ''http://example.com/a/b/pic.PNG'') 1 offlineWorld) =
       Rejected (Error ''network down'')
   \<and> urlCache (snd (downloadAndCacheUrl 0 (JStr ''http://example.com/a/b/pic.PNG'') 1 offlineWorld)) =
       Map.empty
   \<and> ''/seed.png'' \<notin> files offlineWorld
   \<and> fst (seedAndCacheUrl 0 (JStr ''http://example.com/a/b/pic.PNG'') ''/seed.png'' 1 offlineWorld) =
       Rejected (Error ''source file does not exist'')
   \<and> urlCache (snd (seedAndCacheUrl 0 (JStr ''http://example.com/a/b/pic.PNG'') ''/seed.png'' 1
        offlineWorld)) = Map.empty"
  using materialize_failure_writes_no_record
    [of "JStr ''http://example.com/a/b/pic.PNG''" _ offlineWorld 1 0 _ _ _ "Error ''network down''" False
      "''/seed.png''",
      OF example_cacheable refl refl refl _ refl]
    example_cacheable
  by (simp add: example_simps)

text \<open>A probe and a download in the world with the dangling record.\<close>

theorem dangling_record_self_heals_witness:
  "isCacheable (JStr ''http://example.com/a/b/pic.PNG'')
   \<and> urlCache danglingWorld (getCacheableUrl ''http://example.com/a/b/pic.PNG'' (JBool False)) =
       Some (''gone/old.png'', JNum 60)
   \<and> ''/cache/gone/old.png'' \<notin> files danglingWorld
   \<and> fst (isCachedURL 0 (JStr ''http://example.com/a/b/pic.PNG'') 1 danglingWorld) = Resolved False
   \<and> fst (downloadAndCacheUrl 0 (JStr ''http://example.com/a/b/pic.PNG'') 1 danglingWorld) =
       Resolved (''/cache/'' @ getImageRelativeFilePath
                   (getCacheableUrl ''http://example.com/a/b/pic.PNG'' (JBool False)))
   \<and> urlCache (snd (downloadAndCacheUrl 0 (JStr ''http://example.com/a/b/pic.PNG'') 1 danglingWorld))
        (getCacheableUrl ''http://example.com/a/b/pic.PNG'' (JBool False)) =
       Some (getImageRelativeFilePath
               (getCacheableUrl ''http://example.com/a/b/pic.PNG'' (JBool False)), JNum 1209600)
   \<and> ''/cache/'' @ getImageRelativeFilePath
                      (getCacheableUrl ''http://example.com/a/b/pic.PNG'' (JBool False))
       \<in> files (snd (downloadAndCacheUrl 0 (JStr ''http://example.com/a/b/pic.PNG'') 1 danglingWorld))"
  using dangling_record_self_heals
    [of "JStr ''http://example.com/a/b/pic.PNG''" _ danglingWorld 1 0 _ _ "''gone/old.png''" "JNum 60",
      OF example_cacheable refl refl refl _ _ refl]
    example_cacheable
  by (simp add: example_simps)

lemma example_fetch:
  "fst (downloadAndCacheUrl 0 (JStr ''http://example.com/a/b/pic.PNG'') 1 readyWorld) =
     Resolved (''/cache/'' @ getImageRelativeFilePath
                 (getCacheableUrl ''http://example.com/a/b/pic.PNG'' (JBool False)))"
  using downloadAndCacheUrl_miss
    [of "JStr ''http://example.com/a/b/pic.PNG''" _ readyWorld 1 0, OF example_cacheable refl refl refl]
  by (simp add: example_simps)

text \<open>A download of the example URL, then a probe and a second download.\<close>

theorem fetch_then_probe_and_refetch_hit_witness:
  "fst (downloadAndCacheUrl 0 (JStr ''http://example.com/a/b/pic.PNG'') 1 readyWorld) =
     Resolved (''/cache/'' @ getImageRelativeFilePath
                 (getCacheableUrl ''http://example.com/a/b/pic.PNG'' (JBool False)))
   \<and> fst (isCachedURL 0 (JStr ''http://example.com/a/b/pic.PNG'') 1
        (snd (downloadAndCacheUrl 0 (JStr ''http://example.com/a/b/pic.PNG'') 1 readyWorld))) =
       Resolved True
   \<and> fst (downloadAndCacheUrl 0 (JStr ''http://example.com/a/b/pic.PNG'') 1
        (snd (downloadAndCacheUrl 0 (JStr ''http://example.com/a/b/pic.PNG'') 1 readyWorld))) =
       Resolved (''/cache/'' @ getImageRelativeFilePath
                   (getCacheableUrl ''http://example.com/a/b/pic.PNG'' (JBool False)))
   \<and> trace (snd (downloadAndCacheUrl 0 (JStr ''http://example.com/a/b/pic.PNG'') 1
        (snd (downloadAndCacheUrl 0 (JStr ''http://example.com/a/b/pic.PNG'') 1 readyWorld)))) =
       trace (snd (downloadAndCacheUrl 0 (JStr ''http://example.com/a/b/pic.PNG'') 1 readyWorld)) @
       [CacheGet (getCacheableUrl ''http://example.com/a/b/pic.PNG'' (JBool False)),
        FsExists (''/cache/'' @ getImageRelativeFilePath
                    (getCacheableUrl ''http://example.com/a/b/pic.PNG'' (JBool False)))]"
proof -
  let ?u = "JStr ''http://example.com/a/b/pic.PNG''"
  let ?p = "''/cache/'' @ getImageRelativeFilePath
                 (getCacheableUrl ''http://example.com/a/b/pic.PNG'' (JBool False))"
  have d: "downloadAndCacheUrl 0 ?u 1 readyWorld =
             (Resolved ?p, snd (downloadAndCacheUrl 0 ?u 1 readyWorld))"
    using example_fetch by (simp add: prod_eq_iff)
  have h: "getProp (heap (snd (downloadAndCacheUrl 0 ?u 1 readyWorld)) 1) ''useQueryParamsInCacheKey''
             = JBool False"
    using example_cacheable by (simp add: heap_downloadAndCacheUrl example_simps)
  show ?thesis
    using fetch_then_probe_and_refetch_hit [OF d refl] example_fetch h by simp
qed

end
